theory Spec2Isabelle
  imports Main "HOL-Library.AList" "HOL-Library.Sublist"
begin

section \<open>Python values, exceptions and dictionaries\<close>

text \<open>
  The script \<^verbatim>\<open>tools/create_gbl.py\<close> is embedded function by function. A Python
  \<^verbatim>\<open>str\<close> is a \<^typ>\<open>string\<close>, read as a sequence of code points below 256. A raised
  exception is the \<open>Inl\<close> side of a sum, a returned value the \<open>Inr\<close> side.
\<close>

datatype py_exception =
    ValueError
  | SyntaxError
  | TypeError
  | KeyError
  | IndexError
  | FileNotFoundError
  | IsADirectoryError
  | NotADirectoryError
  | MemoryError
  | RecursionError

text \<open>
  The values a literal or a YAML scalar can denote. \<open>PyOther r\<close> is any value of another kind
  (float, bytes, tuple, list, dict, set), known only by the text \<open>r\<close> that \<^verbatim>\<open>str()\<close> prints.
\<close>

datatype py_value =
    PyNone
  | PyBool bool
  | PyInt int
  | PyStr string
  | PyOther string

text \<open>
  A \<^verbatim>\<open>dict\<close> keeps its keys in insertion order, and an assignment to a key that is
  already there replaces the value in place: this is \<^const>\<open>AList.update\<close> on an
  association list.
\<close>

type_synonym ('k, 'v) dict = "('k \<times> 'v) list"

definition dict_set :: "'k \<Rightarrow> 'v \<Rightarrow> ('k, 'v) dict \<Rightarrow> ('k, 'v) dict" where
  "dict_set k v d = AList.update k v d"

definition dict_has :: "('k, 'v) dict \<Rightarrow> 'k \<Rightarrow> bool" where
  "dict_has d k = (map_of d k \<noteq> None)"

definition dict_get :: "('k, 'v) dict \<Rightarrow> 'k \<Rightarrow> py_exception + 'v" where
  "dict_get d k = (case map_of d k of None \<Rightarrow> Inl KeyError | Some v \<Rightarrow> Inr v)"

definition and_then :: "'e + 'a \<Rightarrow> ('a \<Rightarrow> 'e + 'b) \<Rightarrow> 'e + 'b" where
  "and_then r f = (case r of Inl e \<Rightarrow> Inl e | Inr a \<Rightarrow> f a)"

text \<open>\<^verbatim>\<open>a, b = xs\<close>: unpacking into two names raises \<^verbatim>\<open>ValueError\<close> unless \<open>xs\<close> has two items.\<close>

fun unpack2 :: "'a list \<Rightarrow> py_exception + ('a \<times> 'a)" where
  "unpack2 [a, b] = Inr (a, b)"
| "unpack2 _ = Inl ValueError"

section \<open>String methods\<close>

text \<open>\<^verbatim>\<open>str.isspace\<close> on one code point below 256.\<close>

definition py_isspace :: "char \<Rightarrow> bool" where
  "py_isspace c =
     (c \<in> set [CHR 0x09, CHR 0x0A, CHR 0x0B, CHR 0x0C, CHR 0x0D, CHR 0x1C, CHR 0x1D,
               CHR 0x1E, CHR 0x1F, CHR 0x20, CHR 0x85, CHR 0xA0])"

text \<open>\<^verbatim>\<open>s.strip()\<close>\<close>

definition py_strip :: "string \<Rightarrow> string" where
  "py_strip s = rev (dropWhile py_isspace (rev (dropWhile py_isspace s)))"

text \<open>\<^verbatim>\<open>s.startswith(p)\<close>\<close>

definition py_startswith :: "string \<Rightarrow> string \<Rightarrow> bool" where
  "py_startswith s p = (take (length p) s = p)"

text \<open>\<^verbatim>\<open>s.split(sep)\<close> for a separator of one character: never an empty list.\<close>

fun py_split :: "char \<Rightarrow> string \<Rightarrow> string list" where
  "py_split sep [] = [[]]"
| "py_split sep (c # cs) =
     (if c = sep then [] # py_split sep cs
      else (case py_split sep cs of [] \<Rightarrow> [[c]] | l # ls \<Rightarrow> (c # l) # ls))"

text \<open>\<^verbatim>\<open>s.split(sep, 1)\<close> for a separator of one character: cut at its first occurrence.\<close>

definition py_split_once :: "char \<Rightarrow> string \<Rightarrow> string list" where
  "py_split_once sep s =
     (if sep \<in> set s then [takeWhile (\<lambda>c. c \<noteq> sep) s, tl (dropWhile (\<lambda>c. c \<noteq> sep) s)]
      else [s])"

text \<open>
  \<^verbatim>\<open>s.split(None, maxsplit)\<close>: runs of whitespace separate the items, leading whitespace
  is dropped, and after \<open>maxsplit\<close> items the rest of the string, without its leading
  whitespace, is the last item if it is not empty.
\<close>

fun py_split_ws :: "nat \<Rightarrow> string \<Rightarrow> string list" where
  "py_split_ws 0 s =
     (let r = dropWhile py_isspace s in if r = [] then [] else [r])"
| "py_split_ws (Suc n) s =
     (let r = dropWhile py_isspace s in
      if r = [] then []
      else takeWhile (\<lambda>c. \<not> py_isspace c) r
             # py_split_ws n (dropWhile (\<lambda>c. \<not> py_isspace c) r))"

text \<open>\<^verbatim>\<open>sep.join(xs)\<close>\<close>

fun py_join :: "string \<Rightarrow> string list \<Rightarrow> string" where
  "py_join sep [] = []"
| "py_join sep [x] = x"
| "py_join sep (x # y # zs) = x @ sep @ py_join sep (y # zs)"

text \<open>\<^verbatim>\<open>str(v)\<close>: an \<^verbatim>\<open>int\<close> prints in decimal.\<close>

fun str_nat :: "nat \<Rightarrow> string" where
  "str_nat n =
     (if n < 10 then [''0123456789'' ! n]
      else str_nat (n div 10) @ [''0123456789'' ! (n mod 10)])"

declare str_nat.simps [simp del]

definition py_str :: "py_value \<Rightarrow> string" where
  "py_str v =
     (case v of
        PyNone \<Rightarrow> ''None''
      | PyBool b \<Rightarrow> (if b then ''True'' else ''False'')
      | PyInt i \<Rightarrow> (if i < 0 then CHR ''-'' # str_nat (nat (- i)) else str_nat (nat i))
      | PyStr s \<Rightarrow> s
      | PyOther r \<Rightarrow> r)"

text \<open>
  \<^verbatim>\<open>for line in file_content.split("\n"): ...\<close> with a loop body that updates one
  dictionary and may raise.
\<close>

fun for_lines :: "('s \<Rightarrow> string \<Rightarrow> py_exception + 's) \<Rightarrow> string list \<Rightarrow> 's \<Rightarrow> py_exception + 's" where
  "for_lines body [] s = Inr s"
| "for_lines body (l # ls) s =
     (case body s l of Inl e \<Rightarrow> Inl e | Inr s' \<Rightarrow> for_lines body ls s')"

section \<open>The three parsers\<close>

subsection \<open>\<^verbatim>\<open>parse_simple_config\<close>\<close>

definition simple_config_line ::
  "(string, string) dict \<Rightarrow> string \<Rightarrow> py_exception + (string, string) dict" where
  "simple_config_line config raw =
     (let line = py_strip raw in
      if line = [] \<or> py_startswith line ''#'' \<or> CHR ''='' \<notin> set line then Inr config
      else and_then (unpack2 (py_split_once (CHR ''='') line))
             (\<lambda>(key, val). Inr (dict_set (py_strip key) (py_strip val) config)))"

definition parse_simple_config :: "string \<Rightarrow> py_exception + (string, string) dict" where
  "parse_simple_config file_content =
     for_lines simple_config_line (py_split (CHR ''\<newline>'') file_content) []"

subsection \<open>\<^verbatim>\<open>parse_properties_file\<close>\<close>

text \<open>
  The \<^verbatim>\<open>while i < len(value)\<close> loop. \<open>tokens\<close> is the list \<^verbatim>\<open>properties[key]\<close>,
  which the loop only appends to.
\<close>

function tokenize_value :: "string \<Rightarrow> nat \<Rightarrow> string \<Rightarrow> string list \<Rightarrow> string list" where
  "tokenize_value val i current_value tokens =
     (if i < length val then
        (if take 2 (drop i val) = [CHR 0x5C, CHR 0x5C]
           then tokenize_value val (i + 2) (current_value @ '' '') tokens
         else if val ! i = CHR '' ''
           then tokenize_value val (i + 1) [] (tokens @ [current_value])
         else tokenize_value val (i + 1) (current_value @ [val ! i]) tokens)
      else (if current_value \<noteq> [] then tokens @ [current_value] else tokens))"
  by pat_completeness auto
termination
  by (relation "measure (\<lambda>(val, i, current_value, tokens). length val - i)") auto

declare tokenize_value.simps [simp del]

definition properties_line ::
  "(string, string list) dict \<Rightarrow> string \<Rightarrow> py_exception + (string, string list) dict" where
  "properties_line properties raw =
     (let line = py_strip raw in
      if line = [] \<or> py_startswith line ''#'' then Inr properties
      else and_then (unpack2 (py_split_once (CHR ''='') line))
             (\<lambda>(key, val). Inr (dict_set (py_strip key) (tokenize_value val 0 [] []) properties)))"

definition parse_properties_file :: "string \<Rightarrow> py_exception + (string, string list) dict" where
  "parse_properties_file file_content =
     for_lines properties_line (py_split (CHR ''\<newline>'') file_content) []"

subsection \<open>\<^verbatim>\<open>parse_c_header_defines\<close>\<close>

text \<open>
  \<^verbatim>\<open>ast.literal_eval\<close> belongs to the Python library, not to this repository, so the
  parser takes it as the parameter \<open>literal_eval\<close>: from the value (\<open>None\<close> for Python's
  \<^verbatim>\<open>None\<close>) to the literal it denotes or the exception it raises.

  \<^verbatim>\<open>try: config[key] = ast.literal_eval(value)
except (ValueError, SyntaxError): pass\<close>
\<close>

definition assign_literal ::
  "(string option \<Rightarrow> py_exception + py_value) \<Rightarrow> (string, py_value) dict \<Rightarrow> string \<Rightarrow> string option
     \<Rightarrow> py_exception + (string, py_value) dict" where
  "assign_literal literal_eval config key val =
     (case literal_eval val of
        Inr v \<Rightarrow> Inr (dict_set key v config)
      | Inl e \<Rightarrow> (if e = ValueError \<or> e = SyntaxError then Inr config else Inl e))"

text \<open>
  The loop body. \<^verbatim>\<open>_, *key_value = line.split(None, 2)\<close> needs one item at least;
  with two items left, \<^verbatim>\<open>key, value = key_value\<close>; otherwise
  \<^verbatim>\<open>key, value = key_value + [None]\<close>, which unpacks only when one item is left.
\<close>

definition define_line ::
  "(string option \<Rightarrow> py_exception + py_value) \<Rightarrow> (string, py_value) dict \<Rightarrow> string
     \<Rightarrow> py_exception + (string, py_value) dict" where
  "define_line literal_eval config line =
     (if \<not> py_startswith line ''#define'' then Inr config
      else (case py_split_ws 2 line of
              [] \<Rightarrow> Inl ValueError
            | _ # key_value \<Rightarrow>
                (case key_value of
                   [key, val] \<Rightarrow> assign_literal literal_eval config key (Some val)
                 | [key] \<Rightarrow> assign_literal literal_eval config key None
                 | _ \<Rightarrow> Inl ValueError)))"

definition parse_c_header_defines ::
  "(string option \<Rightarrow> py_exception + py_value) \<Rightarrow> string \<Rightarrow> py_exception + (string, py_value) dict" where
  "parse_c_header_defines literal_eval file_content =
     for_lines (define_line literal_eval) (py_split (CHR ''\<newline>'') file_content) []"

section \<open>The file system and \<^verbatim>\<open>find_file_in_parent_dirs\<close>\<close>

text \<open>
  A resolved absolute path is the list of its components below the root directory \<open>[]\<close>;
  the file system gives what is at a path, if anything. It is a tree: what is at a path lies
  in a directory, so nothing is below a regular file or below a missing directory.
  \<^verbatim>\<open>Path.resolve\<close> is the operating system's, a parameter where it is called.
\<close>

type_synonym path = "string list"

datatype fs_entry = RegularFile string | Directory

type_synonym filesystem = "path \<Rightarrow> fs_entry option"

definition path_exists :: "filesystem \<Rightarrow> path \<Rightarrow> bool" where
  "path_exists fs p = (fs p \<noteq> None)"

text \<open>
  \<^verbatim>\<open>path.read_text()\<close>. A regular file gives its content and a directory raises
  \<^verbatim>\<open>IsADirectoryError\<close>. With nothing at the path, the operating system reports which
  component stopped it: \<^verbatim>\<open>NotADirectoryError\<close> when a parent component is a regular file,
  \<^verbatim>\<open>FileNotFoundError\<close> when a component is missing from its directory. Other failures of
  the operating system (permissions, decoding) are left out.
\<close>

definition is_regular_file :: "filesystem \<Rightarrow> path \<Rightarrow> bool" where
  "is_regular_file fs p = (case fs p of Some (RegularFile content) \<Rightarrow> True | _ \<Rightarrow> False)"

definition read_text :: "filesystem \<Rightarrow> path \<Rightarrow> py_exception + string" where
  "read_text fs p =
     (case fs p of
        None \<Rightarrow>
          (if list_ex (is_regular_file fs) (butlast (prefixes p)) then Inl NotADirectoryError
           else Inl FileNotFoundError)
      | Some Directory \<Rightarrow> Inl IsADirectoryError
      | Some (RegularFile content) \<Rightarrow> Inr content)"

text \<open>\<^verbatim>\<open>root.parent\<close>: the root directory is its own parent.\<close>

definition parent :: "path \<Rightarrow> path" where
  "parent p = butlast p"

text \<open>The \<^verbatim>\<open>while True\<close> loop, \<open>filename\<close> being one path component.\<close>

function find_from :: "filesystem \<Rightarrow> path \<Rightarrow> string \<Rightarrow> py_exception + path" where
  "find_from fs root filename =
     (if path_exists fs (root @ [filename]) then Inr (root @ [filename])
      else if parent root = root then Inl FileNotFoundError
      else find_from fs (parent root) filename)"
  by pat_completeness auto
termination
proof (relation "measure (\<lambda>(fs, root, filename). length root)")
  show "wf (measure (\<lambda>(fs, root, filename). length root))"
    by simp
next
  fix fs :: filesystem and root :: path and filename :: string
  assume "parent root \<noteq> root"
  then have "root \<noteq> []"
    by (auto simp: parent_def)
  then show "((fs, parent root, filename), (fs, root, filename))
               \<in> measure (\<lambda>(fs, root, filename). length root)"
    by (simp add: parent_def)
qed

declare find_from.simps [simp del]

definition find_file_in_parent_dirs ::
  "(path \<Rightarrow> path) \<Rightarrow> filesystem \<Rightarrow> path \<Rightarrow> string \<Rightarrow> py_exception + path" where
  "find_file_in_parent_dirs resolve fs root filename = find_from fs (resolve root) filename"

section \<open>The metadata resolver\<close>

text \<open>
  \<^verbatim>\<open>gbl_metadata.yaml\<close> as loaded. A field is \<open>None\<close> when the file has no such key, and
  \<open>Some PyNone\<close> when the key is there with a null value; \<open>dynamic\<close> is a list of names.
\<close>

record gbl_metadata_yaml =
  fw_type :: "py_value option"
  baudrate :: "py_value option"
  dynamic :: "string list option"
  compression :: "py_value option"
  sign_key :: "py_value option"
  encrypt_key :: "py_value option"

text \<open>The files the resolver reads, with the two directories it reads them from.\<close>

record build_tree =
  files :: filesystem
  gsdk_path :: path
  project_root :: path

text \<open>\<^verbatim>\<open>mapping[key]\<close> on a loaded YAML mapping, and \<^verbatim>\<open>xs[0]\<close>.\<close>

definition required :: "'a option \<Rightarrow> py_exception + 'a" where
  "required v = (case v of None \<Rightarrow> Inl KeyError | Some a \<Rightarrow> Inr a)"

definition item0 :: "'a list \<Rightarrow> py_exception + 'a" where
  "item0 xs = (case xs of [] \<Rightarrow> Inl IndexError | x # _ \<Rightarrow> Inr x)"

text \<open>
  The dictionary literal \<^verbatim>\<open>metadata = {...}\<close>; \<open>sdk_version\<close> is what
  \<^verbatim>\<open>slcp["sdk"]["version"]\<close> finds.
\<close>

definition initial_metadata ::
  "py_value option \<Rightarrow> gbl_metadata_yaml \<Rightarrow> py_exception + (string, py_value) dict" where
  "initial_metadata sdk_version gbl_metadata =
     and_then (required sdk_version) (\<lambda>sv.
     and_then (required (fw_type gbl_metadata)) (\<lambda>ft.
     and_then (required (baudrate gbl_metadata)) (\<lambda>br.
       Inr [(''metadata_version'', PyInt 1), (''sdk_version'', sv), (''fw_type'', ft),
            (''baudrate'', br)])))"

definition ezsp_version_step ::
  "build_tree \<Rightarrow> string list \<Rightarrow> (string, py_value) dict \<Rightarrow> py_exception + (string, py_value) dict" where
  "ezsp_version_step tree gbl_dynamic metadata =
     (if ''ezsp_version'' \<in> set gbl_dynamic then
        and_then (read_text (files tree)
                    (gsdk_path tree @ [''protocol'', ''zigbee'', ''esf.properties''])) (\<lambda>content.
        and_then (parse_properties_file content) (\<lambda>zigbee_esf_props.
        and_then (dict_get zigbee_esf_props ''version'') (\<lambda>version.
        and_then (item0 version) (\<lambda>v.
          Inr (dict_set ''ezsp_version'' (PyStr v) metadata)))))
      else Inr metadata)"

text \<open>
  The \<^verbatim>\<open>try\<close> block of the \<open>cpc_version\<close> step: reading and parsing the optional
  header, with \<^verbatim>\<open>except FileNotFoundError: internal_app_config_h = {}\<close>.
\<close>

definition internal_app_config ::
  "(string option \<Rightarrow> py_exception + py_value) \<Rightarrow> build_tree \<Rightarrow> py_exception + (string, py_value) dict" where
  "internal_app_config literal_eval tree =
     (case and_then (read_text (files tree)
                       (project_root tree @ [''config'', ''internal_app_config.h'']))
             (parse_c_header_defines literal_eval) of
        Inl e \<Rightarrow> (if e = FileNotFoundError then Inr [] else Inl e)
      | Inr internal_app_config_h \<Rightarrow> Inr internal_app_config_h)"

text \<open>\<^verbatim>\<open>metadata["cpc_version"] += extra\<close>, the left side being the string \<open>version\<close>.\<close>

definition append_suffix ::
  "string \<Rightarrow> py_value \<Rightarrow> (string, py_value) dict \<Rightarrow> py_exception + (string, py_value) dict" where
  "append_suffix version extra metadata =
     (case extra of
        PyStr s \<Rightarrow> Inr (dict_set ''cpc_version'' (PyStr (version @ s)) metadata)
      | _ \<Rightarrow> Inl TypeError)"

definition cpc_version_step ::
  "(string option \<Rightarrow> py_exception + py_value) \<Rightarrow> build_tree \<Rightarrow> string list
     \<Rightarrow> (string, py_value) dict \<Rightarrow> py_exception + (string, py_value) dict" where
  "cpc_version_step literal_eval tree gbl_dynamic metadata =
     (if ''cpc_version'' \<in> set gbl_dynamic then
        and_then (read_text (files tree)
                    (gsdk_path tree @ [''platform'', ''common'', ''inc'', ''sl_gsdk_version.h''])) (\<lambda>content.
        and_then (parse_c_header_defines literal_eval content) (\<lambda>sl_gsdk_version_h.
        and_then (dict_get sl_gsdk_version_h ''SL_GSDK_MAJOR_VERSION'') (\<lambda>major.
        and_then (dict_get sl_gsdk_version_h ''SL_GSDK_MINOR_VERSION'') (\<lambda>minor.
        and_then (dict_get sl_gsdk_version_h ''SL_GSDK_PATCH_VERSION'') (\<lambda>patch.
          let version = py_join ''.'' [py_str major, py_str minor, py_str patch];
              metadata = dict_set ''cpc_version'' (PyStr version) metadata
          in and_then (internal_app_config literal_eval tree) (\<lambda>internal_app_config_h.
               if dict_has internal_app_config_h ''CPC_SECONDARY_APP_VERSION_SUFFIX'' then
                 and_then (dict_get internal_app_config_h ''CPC_SECONDARY_APP_VERSION_SUFFIX'')
                   (\<lambda>extra. append_suffix version extra metadata)
               else Inr metadata))))))
      else Inr metadata)"

definition zwave_version_step ::
  "build_tree \<Rightarrow> string list \<Rightarrow> (string, py_value) dict \<Rightarrow> py_exception + (string, py_value) dict" where
  "zwave_version_step tree gbl_dynamic metadata =
     (if ''zwave_version'' \<in> set gbl_dynamic then
        and_then (read_text (files tree)
                    (gsdk_path tree @ [''protocol'', ''z-wave'', ''esf.properties''])) (\<lambda>content.
        and_then (parse_properties_file content) (\<lambda>zwave_esf_props.
        and_then (dict_get zwave_esf_props ''version'') (\<lambda>version.
        and_then (item0 version) (\<lambda>v.
          Inr (dict_set ''zwave_version'' (PyStr v) metadata)))))
      else Inr metadata)"

definition ot_rcp_version_step ::
  "(string option \<Rightarrow> py_exception + py_value) \<Rightarrow> build_tree \<Rightarrow> string list
     \<Rightarrow> (string, py_value) dict \<Rightarrow> py_exception + (string, py_value) dict" where
  "ot_rcp_version_step literal_eval tree gbl_dynamic metadata =
     (if ''ot_rcp_version'' \<in> set gbl_dynamic then
        and_then (read_text (files tree)
                    (project_root tree @ [''config'', ''sl_openthread_generic_config.h''])) (\<lambda>content.
        and_then (parse_c_header_defines literal_eval content) (\<lambda>openthread_config_h.
        and_then (dict_get openthread_config_h ''PACKAGE_STRING'') (\<lambda>package_string.
          Inr (dict_set ''ot_rcp_version'' package_string metadata))))
      else Inr metadata)"

definition gecko_bootloader_version_step ::
  "(string option \<Rightarrow> py_exception + py_value) \<Rightarrow> build_tree \<Rightarrow> string list
     \<Rightarrow> (string, py_value) dict \<Rightarrow> py_exception + (string, py_value) dict" where
  "gecko_bootloader_version_step literal_eval tree gbl_dynamic metadata =
     (if ''gecko_bootloader_version'' \<in> set gbl_dynamic then
        and_then (read_text (files tree)
                    (gsdk_path tree @ [''platform'', ''bootloader'', ''config'', ''btl_config.h''])) (\<lambda>content.
        and_then (parse_c_header_defines literal_eval content) (\<lambda>btl_config_h.
        and_then (dict_get btl_config_h ''BOOTLOADER_VERSION_MAIN_MAJOR'') (\<lambda>major.
        and_then (dict_get btl_config_h ''BOOTLOADER_VERSION_MAIN_MINOR'') (\<lambda>minor.
        and_then (dict_get btl_config_h ''BOOTLOADER_VERSION_MAIN_CUSTOMER'') (\<lambda>customer.
          Inr (dict_set ''gecko_bootloader_version''
                 (PyStr (py_join ''.'' [py_str major, py_str minor, py_str customer])) metadata))))))
      else Inr metadata)"

text \<open>
  Lines 171 to 232 of the script: the initial dictionary, then the five \<^verbatim>\<open>if\<close> blocks in
  their order. \<^verbatim>\<open>gbl_metadata.get("dynamic", [])\<close> is the empty list when the key is absent.
\<close>

definition resolve_metadata ::
  "(string option \<Rightarrow> py_exception + py_value) \<Rightarrow> build_tree \<Rightarrow> py_value option \<Rightarrow> gbl_metadata_yaml
     \<Rightarrow> py_exception + (string, py_value) dict" where
  "resolve_metadata literal_eval tree sdk_version gbl_metadata =
     and_then (initial_metadata sdk_version gbl_metadata) (\<lambda>metadata.
       let gbl_dynamic = (case dynamic gbl_metadata of None \<Rightarrow> [] | Some names \<Rightarrow> names) in
       and_then (ezsp_version_step tree gbl_dynamic metadata) (\<lambda>metadata.
       and_then (cpc_version_step literal_eval tree gbl_dynamic metadata) (\<lambda>metadata.
       and_then (zwave_version_step tree gbl_dynamic metadata) (\<lambda>metadata.
       and_then (ot_rcp_version_step literal_eval tree gbl_dynamic metadata) (\<lambda>metadata.
         gecko_bootloader_version_step literal_eval tree gbl_dynamic metadata)))))"

section \<open>The invocation of \<^verbatim>\<open>commander\<close>\<close>

text \<open>
  An item of \<^verbatim>\<open>commander_args\<close>: a string written in the script or the device part id,
  a path, or a value taken from \<^verbatim>\<open>gbl_metadata.yaml\<close>.
\<close>

datatype arg = Word string | PathArg path | ValueArg py_value

text \<open>
  \<^verbatim>\<open>if gbl_metadata.get(key, None) is not None:
    commander_args += [flag, gbl_metadata[key]]\<close>
\<close>

definition add_option :: "string \<Rightarrow> py_value option \<Rightarrow> arg list \<Rightarrow> arg list" where
  "add_option flag setting args =
     (case setting of
        None \<Rightarrow> args
      | Some v \<Rightarrow> (if v \<noteq> PyNone then args @ [Word flag, ValueArg v] else args))"

text \<open>
  Lines 246 to 266. \<open>out_gbl\<close> is \<^verbatim>\<open>out_file.with_suffix(".gbl")\<close>, which
  \<^verbatim>\<open>pathlib\<close> computes.
\<close>

definition commander_args ::
  "gbl_metadata_yaml \<Rightarrow> path \<Rightarrow> path \<Rightarrow> string \<Rightarrow> path \<Rightarrow> py_exception + arg list" where
  "commander_args gbl_metadata out_gbl out_file device_part_id artifact_root =
     and_then (required (fw_type gbl_metadata)) (\<lambda>ft.
       let args = [Word ''commander'', Word ''gbl'', Word ''create'', PathArg out_gbl,
                   Word (if ft \<noteq> PyStr ''gecko-bootloader'' then ''--app'' else ''--bootloader''),
                   PathArg out_file, Word ''--device'', Word device_part_id, Word ''--metadata'',
                   PathArg (artifact_root @ [''gbl_metadata.json''])];
           args = add_option ''--compress'' (compression gbl_metadata) args;
           args = add_option ''--sign'' (sign_key gbl_metadata) args;
           args = add_option ''--encrypt'' (encrypt_key gbl_metadata) args
       in Inr args)"

section \<open>What the specification says, as definitions\<close>

subsection \<open>The entries of a simple configuration file\<close>

text \<open>
  A line, once trimmed, counts when it is not blank, does not start with \<open>#\<close> and contains
  \<open>=\<close>; its entry is the trimmed text before the first \<open>=\<close> with the trimmed text after it.
\<close>

definition simple_entry_line :: "string \<Rightarrow> bool" where
  "simple_entry_line line =
     (line \<noteq> [] \<and> \<not> py_startswith line ''#'' \<and> CHR ''='' \<in> set line)"

definition simple_entry :: "string \<Rightarrow> string \<times> string" where
  "simple_entry line =
     (py_strip (takeWhile (\<lambda>c. c \<noteq> CHR ''='') line),
      py_strip (tl (dropWhile (\<lambda>c. c \<noteq> CHR ''='') line)))"

definition simple_entries :: "string \<Rightarrow> (string \<times> string) list" where
  "simple_entries file_content =
     map simple_entry
       (filter simple_entry_line (map py_strip (py_split (CHR ''\<newline>'') file_content)))"

subsection \<open>The tokens of a property value\<close>

text \<open>
  The value read in two passes. First its characters are classified: two backslashes in a
  row stand for one space that belongs to a token, a space alone separates tokens, any other
  character stands for itself. Then the tokens are cut at the separators, and an empty last
  token is left out.
\<close>

datatype piece = Separator | Character char

fun unescape :: "string \<Rightarrow> piece list" where
  "unescape [] = []"
| "unescape [a] = [if a = CHR '' '' then Separator else Character a]"
| "unescape (a # b # cs) =
     (if a = CHR 0x5C \<and> b = CHR 0x5C then Character (CHR '' '') # unescape cs
      else (if a = CHR '' '' then Separator else Character a) # unescape (b # cs))"

fun tokens_of :: "piece list \<Rightarrow> string \<Rightarrow> string list" where
  "tokens_of [] current = (if current \<noteq> [] then [current] else [])"
| "tokens_of (Separator # ps) current = current # tokens_of ps []"
| "tokens_of (Character c # ps) current = tokens_of ps (current @ [c])"

definition spec_tokens :: "string \<Rightarrow> string list" where
  "spec_tokens val = tokens_of (unescape val) []"

subsection \<open>The tokens an optional setting adds to the invocation\<close>

text \<open>A setting that is absent or null adds nothing; any other adds its flag and its value.\<close>

definition option_tokens :: "string \<Rightarrow> py_value option \<Rightarrow> arg list" where
  "option_tokens flag setting =
     (if setting = None \<or> setting = Some PyNone then [] else [Word flag, ValueArg (the setting)])"

subsection \<open>Example inputs\<close>

text \<open>
  A directory \<open>a/b/c\<close> where only \<open>a\<close> holds \<open>app.slcp\<close>.
\<close>

definition nested_dirs :: filesystem where
  "nested_dirs =
     map_of [([''a''], Directory), ([''a'', ''b''], Directory), ([''a'', ''b'', ''c''], Directory),
             ([''a'', ''app.slcp''], RegularFile ''sdk: {version: 4.4.0}''),
             ([''a'', ''b'', ''c'', ''app.out''], RegularFile [])]"

text \<open>
  A \<^verbatim>\<open>gbl_metadata.yaml\<close> for a bootloader: no \<open>dynamic\<close> and no \<open>compression\<close> key,
  a null \<open>sign_key\<close>, an \<open>encrypt_key\<close>.
\<close>

definition bootloader_yaml :: gbl_metadata_yaml where
  "bootloader_yaml =
     \<lparr>fw_type = Some (PyStr ''gecko-bootloader''), baudrate = Some (PyInt 115200),
      dynamic = None, compression = None, sign_key = Some PyNone,
      encrypt_key = Some (PyStr ''keys/encrypt.txt'')\<rparr>"

subsection \<open>The name and the value of a define line\<close>

text \<open>
  The second item of \<^verbatim>\<open>line.split(None, 2)\<close> is the name; the third, when there is one, is
  the value, and the value is \<^verbatim>\<open>None\<close> otherwise.
\<close>

definition define_name :: "string \<Rightarrow> string" where
  "define_name line = py_split_ws 2 line ! 1"

definition define_value :: "string \<Rightarrow> string option" where
  "define_value line =
     (if length (py_split_ws 2 line) = 3 then Some (py_split_ws 2 line ! 2) else None)"

text \<open>
  What \<^verbatim>\<open>ast.literal_eval\<close> answers on the values used in the examples below:
  \<^verbatim>\<open>None\<close> is a malformed node (\<^verbatim>\<open>ValueError\<close>), so is the expression \<^verbatim>\<open>(1 << 3)\<close>; a
  decimal number is an \<^verbatim>\<open>int\<close> and a quoted text a \<^verbatim>\<open>str\<close>; \<^verbatim>\<open>{{1, 2}, {3, 4}}\<close> is a set
  display whose items are sets, which cannot be hashed (\<^verbatim>\<open>TypeError\<close>). The answer to any
  other value stands for nothing: no example uses it.
\<close>

definition sample_literal_eval :: "string option \<Rightarrow> py_exception + py_value" where
  "sample_literal_eval val =
     (case val of
        None \<Rightarrow> Inl ValueError
      | Some s \<Rightarrow>
          (case map_of
                  [(''42'', Inr (PyInt 42)),
                   ([CHR 0x22] @ ''x'' @ [CHR 0x22], Inr (PyStr ''x'')),
                   (''4'', Inr (PyInt 4)),
                   (''2'', Inr (PyInt 2)),
                   (''1'', Inr (PyInt 1)),
                   (''0'', Inr (PyInt 0)),
                   ([CHR 0x22] @ ''-beta'' @ [CHR 0x22], Inr (PyStr ''-beta'')),
                   ([CHR 0x22] @ ''SL-OPENTHREAD/2.4.1.0'' @ [CHR 0x22],
                      Inr (PyStr ''SL-OPENTHREAD/2.4.1.0'')),
                   (''(1 << 3)'', Inl ValueError),
                   (''{{1, 2}, {3, 4}}'', Inl TypeError)] s of
             Some r \<Rightarrow> r
           | None \<Rightarrow> Inl SyntaxError))"

subsection \<open>The fields of the metadata record and where they come from\<close>

definition base_fields :: "string list" where
  "base_fields = [''metadata_version'', ''sdk_version'', ''fw_type'', ''baudrate'']"

definition recognised_fields :: "string list" where
  "recognised_fields =
     [''ezsp_version'', ''cpc_version'', ''zwave_version'', ''ot_rcp_version'',
      ''gecko_bootloader_version'']"

text \<open>The declared list of dynamic fields: empty when the key is absent.\<close>

definition declared_fields :: "gbl_metadata_yaml \<Rightarrow> string list" where
  "declared_fields gbl_metadata = (case dynamic gbl_metadata of None \<Rightarrow> [] | Some names \<Rightarrow> names)"





text \<open>
  A build tree with the SDK under \<open>sdk\<close> and the project under \<open>project\<close>: the SDK version
  header for 4.2.0, the zigbee properties, the OpenThread configuration; no z-wave
  properties, no bootloader configuration and no \<open>internal_app_config.h\<close>.
\<close>

definition sdk_tree :: build_tree where
  "sdk_tree =
     \<lparr>files = map_of
        [([''sdk''], Directory), ([''sdk'', ''platform''], Directory),
         ([''sdk'', ''platform'', ''common''], Directory),
         ([''sdk'', ''platform'', ''common'', ''inc''], Directory),
         ([''sdk'', ''protocol''], Directory), ([''sdk'', ''protocol'', ''zigbee''], Directory),
         ([''project''], Directory), ([''project'', ''config''], Directory),
         ([''sdk'', ''platform'', ''common'', ''inc'', ''sl_gsdk_version.h''],
            RegularFile (''#ifndef SL_GSDK_VERSION_H\<newline>#define SL_GSDK_MAJOR_VERSION 4\<newline>''
              @ ''#define SL_GSDK_MINOR_VERSION 2\<newline>#define SL_GSDK_PATCH_VERSION 0\<newline>#endif\<newline>'')),
         ([''sdk'', ''protocol'', ''zigbee'', ''esf.properties''],
            RegularFile ''# zigbee\<newline>id=zigbee\<newline>version=7.2.0.0\<newline>''),
         ([''project'', ''config'', ''sl_openthread_generic_config.h''],
            RegularFile (''#define PACKAGE_STRING '' @ [CHR 0x22] @ ''SL-OPENTHREAD/2.4.1.0''
              @ [CHR 0x22]))],
      gsdk_path = [''sdk''], project_root = [''project'']\<rparr>"

text \<open>The same tree with an \<open>internal_app_config.h\<close> that defines the suffix \<open>-beta\<close>.\<close>

definition sdk_tree_beta :: build_tree where
  "sdk_tree_beta =
     sdk_tree\<lparr>files := (files sdk_tree)
       ([''project'', ''config'', ''internal_app_config.h''] \<mapsto>
          RegularFile (''#define CPC_SECONDARY_APP_VERSION_SUFFIX '' @ [CHR 0x22] @ ''-beta''
            @ [CHR 0x22] @ ''\<newline>''))\<rparr>"

text \<open>A \<^verbatim>\<open>gbl_metadata.yaml\<close> with the dynamic fields \<open>names\<close>.\<close>

definition ncp_yaml :: "string list \<Rightarrow> gbl_metadata_yaml" where
  "ncp_yaml names =
     \<lparr>fw_type = Some (PyStr ''ncp-uart-hw''), baudrate = Some (PyInt 115200),
      dynamic = Some names, compression = None, sign_key = None, encrypt_key = None\<rparr>"



section \<open>Properties\<close>

subsection \<open>Exceptions, dictionaries and loops over lines\<close>

lemma and_then_Inl [simp]: "and_then (Inl e) f = Inl e"
  by (simp add: and_then_def)

lemma and_then_Inr [simp]: "and_then (Inr a) f = f a"
  by (simp add: and_then_def)

lemma unpack2_split_once:
  "sep \<in> set s \<Longrightarrow>
     unpack2 (py_split_once sep s) = Inr (takeWhile (\<lambda>c. c \<noteq> sep) s, tl (dropWhile (\<lambda>c. c \<noteq> sep) s))"
  by (simp add: py_split_once_def)

lemma unpack2_split_once_none:
  "sep \<notin> set s \<Longrightarrow> unpack2 (py_split_once sep s) = Inl ValueError"
  by (simp add: py_split_once_def)

subsection \<open>The simple parser\<close>

lemma simple_config_line_eq:
  "simple_config_line config raw =
     Inr (if simple_entry_line (py_strip raw)
          then dict_set (fst (simple_entry (py_strip raw))) (snd (simple_entry (py_strip raw))) config
          else config)"
  by (auto simp: simple_config_line_def simple_entry_line_def simple_entry_def Let_def
      unpack2_split_once)

lemma for_lines_simple:
  "for_lines simple_config_line ls config =
     Inr (fold (\<lambda>e. dict_set (fst e) (snd e))
            (map simple_entry (filter simple_entry_line (map py_strip ls))) config)"
  by (induction ls arbitrary: config) (simp_all add: simple_config_line_eq)

lemma map_of_dict_set: "map_of (dict_set k v d) = (map_of d)(k \<mapsto> v)"
  by (simp add: dict_set_def update_conv')

lemma distinct_dict_set: "distinct (map fst d) \<Longrightarrow> distinct (map fst (dict_set k v d))"
  by (simp add: dict_set_def distinct_update)

lemma map_of_fold_dict_set:
  "map_of (fold (\<lambda>e. dict_set (fst e) (snd e)) es d) = map_of d ++ map_of (rev es)"
proof (induction es arbitrary: d)
  case Nil
  show ?case by simp
next
  case (Cons e es)
  have "(map_of (dict_set (fst e) (snd e) d) ++ map_of (rev es)) k
          = (map_of d ++ ([fst e \<mapsto> snd e] ++ map_of (rev es))) k" for k
    by (simp add: map_of_dict_set map_add_def split: option.splits)
  then have "map_of (dict_set (fst e) (snd e) d) ++ map_of (rev es)
          = map_of d ++ ([fst e \<mapsto> snd e] ++ map_of (rev es))"
    by (rule ext)
  then show ?case
    by (cases e) (simp add: Cons.IH)
qed

lemma distinct_fold_dict_set:
  "distinct (map fst d) \<Longrightarrow> distinct (map fst (fold (\<lambda>e. dict_set (fst e) (snd e)) es d))"
  by (induction es arbitrary: d) (simp_all add: distinct_dict_set)

lemma map_of_rev_last:
  "map_of (rev es) k = Some v \<longleftrightarrow>
     (\<exists>i<length es. es ! i = (k, v) \<and> (\<forall>j<length es. i < j \<longrightarrow> fst (es ! j) \<noteq> k))"
proof (induction es rule: rev_induct)
  case Nil
  show ?case by simp
next
  case (snoc e es)
  show ?case
  proof (cases "fst e = k")
    case True
    have "(\<exists>i<length (es @ [e]). (es @ [e]) ! i = (k, v)
            \<and> (\<forall>j<length (es @ [e]). i < j \<longrightarrow> fst ((es @ [e]) ! j) \<noteq> k)) \<longleftrightarrow> snd e = v"
    proof
      assume "\<exists>i<length (es @ [e]). (es @ [e]) ! i = (k, v)
            \<and> (\<forall>j<length (es @ [e]). i < j \<longrightarrow> fst ((es @ [e]) ! j) \<noteq> k)"
      then obtain i where i: "i < length (es @ [e])" "(es @ [e]) ! i = (k, v)"
        and later: "\<forall>j<length (es @ [e]). i < j \<longrightarrow> fst ((es @ [e]) ! j) \<noteq> k"
        by blast
      have "\<not> i < length es"
      proof
        assume "i < length es"
        with later [rule_format, of "length es"] have "fst ((es @ [e]) ! length es) \<noteq> k"
          by simp
        with True show False
          by simp
      qed
      with i(1) have "i = length es"
        by simp
      with i(2) show "snd e = v"
        by simp
    next
      assume "snd e = v"
      with True have "(es @ [e]) ! length es = (k, v)"
        by (cases e) simp
      then show "\<exists>i<length (es @ [e]). (es @ [e]) ! i = (k, v)
            \<and> (\<forall>j<length (es @ [e]). i < j \<longrightarrow> fst ((es @ [e]) ! j) \<noteq> k)"
        by (intro exI [of _ "length es"]) simp
    qed
    with True show ?thesis
      by (cases e) auto
  next
    case False
    have "(\<exists>i<length (es @ [e]). (es @ [e]) ! i = (k, v)
            \<and> (\<forall>j<length (es @ [e]). i < j \<longrightarrow> fst ((es @ [e]) ! j) \<noteq> k))
          \<longleftrightarrow> (\<exists>i<length es. es ! i = (k, v) \<and> (\<forall>j<length es. i < j \<longrightarrow> fst (es ! j) \<noteq> k))"
    proof
      assume "\<exists>i<length (es @ [e]). (es @ [e]) ! i = (k, v)
            \<and> (\<forall>j<length (es @ [e]). i < j \<longrightarrow> fst ((es @ [e]) ! j) \<noteq> k)"
      then obtain i where i: "i < length (es @ [e])" "(es @ [e]) ! i = (k, v)"
        and later: "\<forall>j<length (es @ [e]). i < j \<longrightarrow> fst ((es @ [e]) ! j) \<noteq> k"
        by blast
      have "i \<noteq> length es"
        using i(2) False by auto
      with i(1) have small: "i < length es"
        by simp
      with i(2) have "es ! i = (k, v)"
        by (simp add: nth_append)
      moreover have "\<forall>j<length es. i < j \<longrightarrow> fst (es ! j) \<noteq> k"
      proof (intro allI impI)
        fix j assume j: "j < length es" "i < j"
        with later have "fst ((es @ [e]) ! j) \<noteq> k"
          by simp
        with j(1) show "fst (es ! j) \<noteq> k"
          by (simp add: nth_append)
      qed
      ultimately show "\<exists>i<length es. es ! i = (k, v) \<and> (\<forall>j<length es. i < j \<longrightarrow> fst (es ! j) \<noteq> k)"
        using small by blast
    next
      assume "\<exists>i<length es. es ! i = (k, v) \<and> (\<forall>j<length es. i < j \<longrightarrow> fst (es ! j) \<noteq> k)"
      then obtain i where i: "i < length es" "es ! i = (k, v)"
        and later: "\<forall>j<length es. i < j \<longrightarrow> fst (es ! j) \<noteq> k"
        by blast
      have "\<forall>j<length (es @ [e]). i < j \<longrightarrow> fst ((es @ [e]) ! j) \<noteq> k"
        using later False by (auto simp: nth_append less_Suc_eq)
      moreover have "(es @ [e]) ! i = (k, v)"
        using i by (simp add: nth_append)
      ultimately show "\<exists>i<length (es @ [e]). (es @ [e]) ! i = (k, v)
            \<and> (\<forall>j<length (es @ [e]). i < j \<longrightarrow> fst ((es @ [e]) ! j) \<noteq> k)"
        using i(1) by (intro exI [of _ i]) simp
    qed
    with False snoc.IH show ?thesis
      by simp
  qed
qed

text \<open>
  Claim C9, as amended. For every input text \<^verbatim>\<open>parse_simple_config\<close> returns a dictionary,
  and the dictionary maps a key \<open>k\<close> to a value \<open>v\<close> exactly when \<open>(k, v)\<close> is the entry of the
  last line, among the lines that once trimmed are not blank, do not start with \<open>#\<close> and
  contain \<open>=\<close>, whose trimmed text before the first \<open>=\<close> is \<open>k\<close>; \<open>v\<close> is the trimmed text
  after that \<open>=\<close>. Blank lines, comment lines and lines without \<open>=\<close> give no entry.
\<close>

theorem parse_simple_config_last_entry_wins:
  "\<exists>config. parse_simple_config file_content = Inr config
     \<and> distinct (map fst config)
     \<and> (\<forall>k v. map_of config k = Some v \<longleftrightarrow>
          (\<exists>i<length (simple_entries file_content).
             simple_entries file_content ! i = (k, v)
             \<and> (\<forall>j<length (simple_entries file_content).
                   i < j \<longrightarrow> fst (simple_entries file_content ! j) \<noteq> k)))"
proof -
  define config where
    "config = fold (\<lambda>e. dict_set (fst e) (snd e)) (simple_entries file_content) []"
  have "parse_simple_config file_content = Inr config"
    by (simp add: parse_simple_config_def for_lines_simple config_def simple_entries_def)
  moreover have "distinct (map fst config)"
    unfolding config_def by (rule distinct_fold_dict_set) simp
  moreover have "map_of config = map_of (rev (simple_entries file_content))"
    by (simp add: config_def map_of_fold_dict_set)
  ultimately show ?thesis
    by (simp add: map_of_rev_last)
qed

text \<open>
  The theorem at a file with a comment, a repeated key, a line without \<open>=\<close> and a blank line.
\<close>

theorem parse_simple_config_last_entry_wins_witness:
  "\<exists>config. parse_simple_config ''# c=0\<newline> k = v=w \<newline>bare\<newline>k=2\<newline>\<newline>j=1'' = Inr config
     \<and> map_of config ''k'' = Some ''2'' \<and> map_of config ''j'' = Some ''1''
     \<and> map_of config ''bare'' = None"
proof -
  let ?text = "''# c=0\<newline> k = v=w \<newline>bare\<newline>k=2\<newline>\<newline>j=1''"
  have es: "simple_entries ?text = [(''k'', ''v=w''), (''k'', ''2''), (''j'', ''1'')]"
    by code_simp
  obtain config where config: "parse_simple_config ?text = Inr config"
    and iff: "\<And>k v. map_of config k = Some v \<longleftrightarrow>
          (\<exists>i<length (simple_entries ?text).
             simple_entries ?text ! i = (k, v)
             \<and> (\<forall>j<length (simple_entries ?text).
                   i < j \<longrightarrow> fst (simple_entries ?text ! j) \<noteq> k))"
    using parse_simple_config_last_entry_wins [of ?text] by blast
  have "map_of config ''k'' = Some ''2''"
    unfolding iff es by (intro exI [of _ 1]) (simp add: less_Suc_eq)
  moreover have "map_of config ''j'' = Some ''1''"
    unfolding iff es by (intro exI [of _ 2]) (simp add: less_Suc_eq)
  moreover have "map_of config ''bare'' \<noteq> Some v" for v
    unfolding iff es by (simp add: Ex_less_Suc)
  then have "map_of config ''bare'' = None"
    by (cases "map_of config ''bare''") auto
  ultimately show ?thesis
    using config by blast
qed

text \<open>
  Claim C9 as it was stated fails when a key is repeated: the first line of this file counts
  and its entry is \<open>(a, 1)\<close>, but the dictionary maps \<open>a\<close> to \<open>2\<close>.
\<close>

theorem parse_simple_config_duplicate_key:
  "simple_entries ''a=1\<newline>a=2'' = [(''a'', ''1''), (''a'', ''2'')]
     \<and> parse_simple_config ''a=1\<newline>a=2'' = Inr [(''a'', ''2'')]"
  by code_simp

subsection \<open>The properties parser\<close>

lemma unescape_Cons:
  "unescape (a # rest) =
     (if a = CHR 0x5C \<and> take 1 rest = [CHR 0x5C] then Character (CHR '' '') # unescape (tl rest)
      else (if a = CHR '' '' then Separator else Character a) # unescape rest)"
  by (cases rest) auto

lemma take2_Cons: "take 2 (a # rest) = [x, y] \<longleftrightarrow> a = x \<and> take 1 rest = [y]"
  by (cases rest) auto

lemma tokenize_value_pieces:
  "tokenize_value val i current tokens = tokens @ tokens_of (unescape (drop i val)) current"
proof (induction val i current tokens rule: tokenize_value.induct)
  case (1 val i current tokens)
  show ?case
  proof (cases "i < length val")
    case False
    then show ?thesis
      by (simp add: tokenize_value.simps [of val i])
  next
    case True
    then have d: "drop i val = val ! i # drop (Suc i) val"
      by (simp add: Cons_nth_drop_Suc)
    show ?thesis
    proof (cases "take 2 (drop i val) = [CHR 0x5C, CHR 0x5C]")
      case escaped: True
      then have "unescape (drop i val) = Character (CHR '' '') # unescape (drop (i + 2) val)"
        by (simp add: d unescape_Cons take2_Cons tl_drop drop_Suc)
      with True escaped "1.IH"(1) show ?thesis
        by (simp add: tokenize_value.simps [of val i])
    next
      case plain: False
      then have u: "unescape (drop i val)
          = (if val ! i = CHR '' '' then Separator else Character (val ! i)) # unescape (drop (i + 1) val)"
        by (simp add: d unescape_Cons take2_Cons)
      show ?thesis
      proof (cases "val ! i = CHR '' ''")
        case True
        with \<open>i < length val\<close> plain "1.IH"(2) u show ?thesis
          by (simp add: tokenize_value.simps [of val i])
      next
        case False
        with \<open>i < length val\<close> plain "1.IH"(3) u show ?thesis
          by (simp add: tokenize_value.simps [of val i])
      qed
    qed
  qed
qed

lemma tokenize_value_spec: "tokenize_value val 0 [] [] = spec_tokens val"
  by (simp add: tokenize_value_pieces spec_tokens_def)

lemma properties_line_eq:
  "properties_line properties raw =
     (if py_strip raw = [] \<or> py_startswith (py_strip raw) ''#'' then Inr properties
      else if CHR ''='' \<in> set (py_strip raw)
        then Inr (dict_set (py_strip (takeWhile (\<lambda>c. c \<noteq> CHR ''='') (py_strip raw)))
                    (spec_tokens (tl (dropWhile (\<lambda>c. c \<noteq> CHR ''='') (py_strip raw)))) properties)
      else Inl ValueError)"
  by (simp add: properties_line_def Let_def unpack2_split_once unpack2_split_once_none
      tokenize_value_spec)

lemma properties_line_raises: "properties_line properties raw = Inl e \<Longrightarrow> e = ValueError"
  by (simp add: properties_line_eq split: if_splits)

lemma for_lines_raises:
  assumes "raw \<in> set ls"
    and "\<And>s. body s raw = Inl e"
    and "\<And>s l e'. body s l = Inl e' \<Longrightarrow> e' = e"
  shows "for_lines body ls s = Inl e"
  using assms(1)
proof (induction ls arbitrary: s)
  case Nil
  then show ?case by simp
next
  case (Cons l ls)
  show ?case
  proof (cases "body s l")
    case (Inl e')
    with assms(3) show ?thesis
      by simp
  next
    case (Inr s')
    with Cons assms(2) show ?thesis
      by auto
  qed
qed

lemma for_lines_append:
  "for_lines body (xs @ ys) s = and_then (for_lines body xs s) (for_lines body ys)"
  by (induction xs arbitrary: s) (simp_all split: sum.splits)

lemma py_split_single: "sep \<notin> set s \<Longrightarrow> py_split sep s = [s]"
  by (induction s) auto

lemma dict_set_empty: "dict_set k v [] = [(k, v)]"
  by (simp add: dict_set_def)

text \<open>
  Claim C1. A line that once trimmed is not blank, does not start with \<open>#\<close> and contains
  \<open>=\<close> is cut at its first \<open>=\<close>; the loop body stores, under the trimmed text before it, the
  tokens of the text after it: two backslashes in a row add one space to the current token, a
  space alone ends the current token and starts the next, any other character is added as
  it is, and the last token is kept when it is not empty. A file made of one such line parses
  to that single entry, and the line \<^verbatim>\<open>version=1\\2\\3 extra\<close> parses to
  \<open>version\<close> with the tokens \<open>1 2 3\<close> and \<open>extra\<close>.
\<close>

theorem parse_properties_file_tokens:
  assumes "line = py_strip raw"
    and "line \<noteq> []"
    and "\<not> py_startswith line ''#''"
    and "CHR ''='' \<in> set line"
  shows "properties_line properties raw =
           Inr (dict_set (py_strip (takeWhile (\<lambda>c. c \<noteq> CHR ''='') line))
                  (spec_tokens (tl (dropWhile (\<lambda>c. c \<noteq> CHR ''='') line))) properties)
       \<and> (CHR ''\<newline>'' \<notin> set raw \<longrightarrow>
            parse_properties_file raw =
              Inr [(py_strip (takeWhile (\<lambda>c. c \<noteq> CHR ''='') line),
                    spec_tokens (tl (dropWhile (\<lambda>c. c \<noteq> CHR ''='') line)))])
       \<and> parse_properties_file
            (''version=1'' @ [CHR 0x5C, CHR 0x5C] @ ''2'' @ [CHR 0x5C, CHR 0x5C] @ ''3 extra'')
           = Inr [(''version'', [''1 2 3'', ''extra''])]"
proof (intro conjI impI)
  show line: "properties_line properties raw =
           Inr (dict_set (py_strip (takeWhile (\<lambda>c. c \<noteq> CHR ''='') line))
                  (spec_tokens (tl (dropWhile (\<lambda>c. c \<noteq> CHR ''='') line))) properties)"
    for properties
    using assms by (simp add: properties_line_eq)
  show "parse_properties_file raw =
              Inr [(py_strip (takeWhile (\<lambda>c. c \<noteq> CHR ''='') line),
                    spec_tokens (tl (dropWhile (\<lambda>c. c \<noteq> CHR ''='') line)))]"
    if "CHR ''\<newline>'' \<notin> set raw"
    using that by (simp add: parse_properties_file_def py_split_single line dict_set_empty)
  show "parse_properties_file
            (''version=1'' @ [CHR 0x5C, CHR 0x5C] @ ''2'' @ [CHR 0x5C, CHR 0x5C] @ ''3 extra'')
           = Inr [(''version'', [''1 2 3'', ''extra''])]"
    by code_simp
qed

text \<open>
  The theorem at a line with spaces around \<open>=\<close>, a double backslash, two spaces in a row and
  a single backslash, in a dictionary that already has the key.
\<close>

theorem parse_properties_file_tokens_witness:
  "properties_line [(''version'', [''0''])]
     (''  version = 1'' @ [CHR 0x5C, CHR 0x5C] @ ''2  x'' @ [CHR 0x5C] @ ''y '')
   = Inr [(''version'', [[], ''1 2'', [], ''x'' @ [CHR 0x5C] @ ''y''])]"
proof -
  let ?raw = "''  version = 1'' @ [CHR 0x5C, CHR 0x5C] @ ''2  x'' @ [CHR 0x5C] @ ''y ''"
  let ?line = "''version = 1'' @ [CHR 0x5C, CHR 0x5C] @ ''2  x'' @ [CHR 0x5C] @ ''y''"
  have 1: "?line = py_strip ?raw"
    by code_simp
  have 2: "?line \<noteq> []"
    by simp
  have 3: "\<not> py_startswith ?line ''#''"
    by code_simp
  have 4: "CHR ''='' \<in> set ?line"
    by simp
  have key: "py_strip (takeWhile (\<lambda>c. c \<noteq> CHR ''='') ?line) = ''version''"
    by code_simp
  have tokens: "spec_tokens (tl (dropWhile (\<lambda>c. c \<noteq> CHR ''='') ?line))
                  = [[], ''1 2'', [], ''x'' @ [CHR 0x5C] @ ''y'']"
    by code_simp
  have "dict_set ''version'' [[], ''1 2'', [], ''x'' @ [CHR 0x5C] @ ''y''] [(''version'', [''0''])]
          = [(''version'', [[], ''1 2'', [], ''x'' @ [CHR 0x5C] @ ''y''])]"
    by (simp add: dict_set_def)
  with parse_properties_file_tokens [OF 1 2 3 4, of "[(''version'', [''0''])]"] key tokens
  show ?thesis
    by simp
qed

text \<open>
  Claim C8. On a line that once trimmed is not blank, does not start with \<open>#\<close> and has no
  \<open>=\<close>, the loop body of \<^verbatim>\<open>parse_simple_config\<close> leaves the dictionary as it is and does
  not raise, so the parse of a file is the parse of the file without that line; the loop
  body of \<^verbatim>\<open>parse_properties_file\<close> raises \<^verbatim>\<open>ValueError\<close> from the unpacking. A file
  with such a line therefore parses with the simple parser and makes the properties parser
  raise \<^verbatim>\<open>ValueError\<close>, which nothing catches: the resolver, reading that file for
  \<open>ezsp_version\<close>, ends with the same exception.
\<close>

theorem line_without_equals_skipped_or_fatal:
  assumes "line = py_strip raw"
    and "line \<noteq> []"
    and "\<not> py_startswith line ''#''"
    and "CHR ''='' \<notin> set line"
  shows "simple_config_line config raw = Inr config
       \<and> for_lines simple_config_line (before @ raw # after) config
           = for_lines simple_config_line (before @ after) config
       \<and> properties_line properties raw = Inl ValueError
       \<and> (raw \<in> set (py_split (CHR ''\<newline>'') file_content) \<longrightarrow>
            (\<exists>entries. parse_simple_config file_content = Inr entries)
            \<and> parse_properties_file file_content = Inl ValueError
            \<and> (initial_metadata sdk_version gbl_metadata = Inr metadata
                 \<and> dynamic gbl_metadata = Some names \<and> ''ezsp_version'' \<in> set names
                 \<and> files tree (gsdk_path tree @ [''protocol'', ''zigbee'', ''esf.properties''])
                     = Some (RegularFile file_content)
               \<longrightarrow> resolve_metadata literal_eval tree sdk_version gbl_metadata = Inl ValueError))"
proof (intro conjI impI)
  show skip: "simple_config_line config raw = Inr config" for config
    using assms by (simp add: simple_config_line_eq simple_entry_line_def)
  show "for_lines simple_config_line (before @ raw # after) config
           = for_lines simple_config_line (before @ after) config"
    by (cases "for_lines simple_config_line before config")
      (simp_all add: for_lines_append skip)
  show fatal: "properties_line properties raw = Inl ValueError" for properties
    using assms by (simp add: properties_line_eq)
  show "\<exists>entries. parse_simple_config file_content = Inr entries"
    by (simp add: parse_simple_config_def for_lines_simple)
  assume "raw \<in> set (py_split (CHR ''\<newline>'') file_content)"
  then show parse: "parse_properties_file file_content = Inl ValueError"
    unfolding parse_properties_file_def
    by (rule for_lines_raises) (simp_all add: fatal properties_line_raises)
  assume "initial_metadata sdk_version gbl_metadata = Inr metadata
                 \<and> dynamic gbl_metadata = Some names \<and> ''ezsp_version'' \<in> set names
                 \<and> files tree (gsdk_path tree @ [''protocol'', ''zigbee'', ''esf.properties''])
                     = Some (RegularFile file_content)"
  then show "resolve_metadata literal_eval tree sdk_version gbl_metadata = Inl ValueError"
    by (simp add: resolve_metadata_def ezsp_version_step_def read_text_def parse)
qed

text \<open>
  The theorem at the line \<^verbatim>\<open> BASE_SDK_PATH \<close>, alone and as the second line of a file.
\<close>

theorem line_without_equals_skipped_or_fatal_witness:
  "simple_config_line [(''a'', ''b'')] '' BASE_SDK_PATH '' = Inr [(''a'', ''b'')]
     \<and> properties_line [(''a'', [''b''])] '' BASE_SDK_PATH '' = Inl ValueError
     \<and> parse_properties_file ''version=1\<newline> BASE_SDK_PATH '' = Inl ValueError"
proof -
  have 1: "''BASE_SDK_PATH'' = py_strip '' BASE_SDK_PATH ''"
    by code_simp
  have 2: "''BASE_SDK_PATH'' \<noteq> []"
    by simp
  have 3: "\<not> py_startswith ''BASE_SDK_PATH'' ''#''"
    by code_simp
  have 4: "CHR ''='' \<notin> set ''BASE_SDK_PATH''"
    by simp
  have 5: "'' BASE_SDK_PATH '' \<in> set (py_split (CHR ''\<newline>'') ''version=1\<newline> BASE_SDK_PATH '')"
    by code_simp
  from line_without_equals_skipped_or_fatal [OF 1 2 3 4,
      of "[(''a'', ''b'')]" _ _ "[(''a'', [''b''])]" "''version=1\<newline> BASE_SDK_PATH ''"] 5
  show ?thesis
    by blast
qed

subsection \<open>The file locator\<close>

lemma prefix_butlast_cases:
  "root \<noteq> [] \<Longrightarrow> prefix d root \<longleftrightarrow> d = root \<or> prefix d (butlast root)"
  by (metis append_butlast_last_id prefix_snoc)

text \<open>
  Claim C3. \<^verbatim>\<open>find_file_in_parent_dirs\<close> always returns or raises: either it returns the
  named file in a directory \<open>d\<close> that is the resolved starting directory or one of its parents
  (a prefix of it, the root directory included), that file exists, and no directory of this
  chain nearer to the start holds the file; or it raises \<^verbatim>\<open>FileNotFoundError\<close> and no
  directory of the chain, from the resolved start up to the root, holds the file.
\<close>

theorem find_file_in_parent_dirs_nearest:
  "(\<exists>d. find_file_in_parent_dirs resolve fs root filename = Inr (d @ [filename])
        \<and> prefix d (resolve root)
        \<and> path_exists fs (d @ [filename])
        \<and> (\<forall>d'. prefix d' (resolve root) \<and> length d < length d'
               \<longrightarrow> \<not> path_exists fs (d' @ [filename])))
   \<or> (find_file_in_parent_dirs resolve fs root filename = Inl FileNotFoundError
        \<and> (\<forall>d. prefix d (resolve root) \<longrightarrow> \<not> path_exists fs (d @ [filename])))"
proof -
  have "(\<exists>d. find_from fs start filename = Inr (d @ [filename])
        \<and> prefix d start
        \<and> path_exists fs (d @ [filename])
        \<and> (\<forall>d'. prefix d' start \<and> length d < length d'
               \<longrightarrow> \<not> path_exists fs (d' @ [filename])))
   \<or> (find_from fs start filename = Inl FileNotFoundError
        \<and> (\<forall>d. prefix d start \<longrightarrow> \<not> path_exists fs (d @ [filename])))" for start
  proof (induction fs start filename rule: find_from.induct)
    case (1 fs root filename)
    show ?case
    proof (cases "path_exists fs (root @ [filename])")
      case True
      then have "find_from fs root filename = Inr (root @ [filename])"
        by (simp add: find_from.simps [of fs root])
      moreover have "\<not> (prefix d' root \<and> length root < length d')" for d'
        using prefix_length_le [of d' root] by auto
      ultimately show ?thesis
        using True by blast
    next
      case absent: False
      show ?thesis
      proof (cases "parent root = root")
        case True
        then have "root = []"
          by (cases root rule: rev_cases) (simp_all add: parent_def)
        with absent show ?thesis
          by (simp add: find_from.simps [of fs "[]"] parent_def)
      next
        case False
        then have nonempty: "root \<noteq> []"
          by (auto simp: parent_def)
        have step: "find_from fs root filename = find_from fs (parent root) filename"
          using absent False by (simp add: find_from.simps [of fs root])
        from "1.IH" [OF absent False] show ?thesis
        proof (elim disjE exE conjE)
          fix d
          assume d: "find_from fs (parent root) filename = Inr (d @ [filename])"
            "prefix d (parent root)" "path_exists fs (d @ [filename])"
            and nearest: "\<forall>d'. prefix d' (parent root) \<and> length d < length d'
                  \<longrightarrow> \<not> path_exists fs (d' @ [filename])"
          have "prefix d root"
            using d(2) nonempty by (simp add: prefix_butlast_cases parent_def)
          moreover have "\<not> path_exists fs (d' @ [filename])"
            if "prefix d' root \<and> length d < length d'" for d'
            using that nearest absent nonempty
            by (auto simp: prefix_butlast_cases parent_def)
          ultimately show ?thesis
            using d step by auto
        next
          assume "find_from fs (parent root) filename = Inl FileNotFoundError"
            and none: "\<forall>d. prefix d (parent root) \<longrightarrow> \<not> path_exists fs (d @ [filename])"
          moreover have "\<not> path_exists fs (d @ [filename])" if "prefix d root" for d
            using that none absent nonempty
            by (auto simp: prefix_butlast_cases parent_def)
          ultimately show ?thesis
            using step by auto
        qed
      qed
    qed
  qed
  then show ?thesis
    by (simp add: find_file_in_parent_dirs_def)
qed

lemma path_exists_nested_dirs:
  "path_exists nested_dirs p \<longleftrightarrow>
     p \<in> {[''a''], [''a'', ''b''], [''a'', ''b'', ''c''], [''a'', ''app.slcp''],
          [''a'', ''b'', ''c'', ''app.out'']}"
  by (auto simp: path_exists_def nested_dirs_def)

text \<open>
  The theorem from \<open>a/b/c\<close>: \<open>app.slcp\<close>, which only \<open>a\<close> holds, is found in \<open>a\<close>, and
  \<open>app.project.mak\<close>, which no directory holds, is not found.
\<close>

theorem find_file_in_parent_dirs_nearest_witness:
  "find_file_in_parent_dirs (\<lambda>p. p) nested_dirs [''a'', ''b'', ''c''] ''app.slcp''
     = Inr [''a'', ''app.slcp'']
   \<and> find_file_in_parent_dirs (\<lambda>p. p) nested_dirs [''a'', ''b'', ''c''] ''app.project.mak''
     = Inl FileNotFoundError"
proof
  have here: "path_exists nested_dirs ([''a''] @ [''app.slcp''])"
    by (simp add: path_exists_nested_dirs)
  have "prefix [''a''] [''a'', ''b'', ''c'']"
    by simp
  with here find_file_in_parent_dirs_nearest
    [of "\<lambda>p. p" nested_dirs "[''a'', ''b'', ''c'']" "''app.slcp''"]
  obtain d where d: "find_file_in_parent_dirs (\<lambda>p. p) nested_dirs [''a'', ''b'', ''c''] ''app.slcp''
      = Inr (d @ [''app.slcp''])" "path_exists nested_dirs (d @ [''app.slcp''])"
    by blast
  from d(2) have "d = [''a'']"
    by (auto simp: path_exists_nested_dirs append_eq_Cons_conv)
  with d(1) show "find_file_in_parent_dirs (\<lambda>p. p) nested_dirs [''a'', ''b'', ''c''] ''app.slcp''
     = Inr [''a'', ''app.slcp'']"
    by simp
next
  have "\<not> path_exists nested_dirs (d @ [''app.project.mak''])" for d
    by (auto simp: path_exists_nested_dirs append_eq_Cons_conv)
  with find_file_in_parent_dirs_nearest
    [of "\<lambda>p. p" nested_dirs "[''a'', ''b'', ''c'']" "''app.project.mak''"]
  show "find_file_in_parent_dirs (\<lambda>p. p) nested_dirs [''a'', ''b'', ''c''] ''app.project.mak''
     = Inl FileNotFoundError"
    by blast
qed

subsection \<open>The invocation\<close>

lemma add_option_tokens: "add_option flag setting args = args @ option_tokens flag setting"
  by (cases setting) (simp_all add: add_option_def option_tokens_def)

text \<open>
  Claim C5. With a firmware type \<open>ft\<close>, \<^verbatim>\<open>commander_args\<close> is ten fixed items followed by
  the items of the optional settings. The fifth item is \<^verbatim>\<open>--bootloader\<close> exactly when \<open>ft\<close> is
  the string \<^verbatim>\<open>gecko-bootloader\<close>, and \<^verbatim>\<open>--app\<close> otherwise. What follows the ten items is,
  in this order, what \<open>compression\<close>, \<open>sign_key\<close> and \<open>encrypt_key\<close> add: the flag and the value
  when the setting is present and not null, nothing when it is absent or null; so each flag is
  among the added items exactly when its setting is present and not null.
\<close>

theorem commander_args_flags:
  assumes "fw_type gbl_metadata = Some ft"
  shows "\<exists>args. commander_args gbl_metadata out_gbl out_file device_part_id artifact_root = Inr args
       \<and> take 10 args =
           [Word ''commander'', Word ''gbl'', Word ''create'', PathArg out_gbl,
            Word (if ft = PyStr ''gecko-bootloader'' then ''--bootloader'' else ''--app''),
            PathArg out_file, Word ''--device'', Word device_part_id, Word ''--metadata'',
            PathArg (artifact_root @ [''gbl_metadata.json''])]
       \<and> (args ! 4 = Word ''--bootloader'' \<longleftrightarrow> ft = PyStr ''gecko-bootloader'')
       \<and> (args ! 4 = Word ''--app'' \<longleftrightarrow> ft \<noteq> PyStr ''gecko-bootloader'')
       \<and> drop 10 args =
           option_tokens ''--compress'' (compression gbl_metadata)
           @ option_tokens ''--sign'' (sign_key gbl_metadata)
           @ option_tokens ''--encrypt'' (encrypt_key gbl_metadata)
       \<and> (Word ''--compress'' \<in> set (drop 10 args) \<longleftrightarrow>
            (\<exists>v. compression gbl_metadata = Some v \<and> v \<noteq> PyNone))
       \<and> (Word ''--sign'' \<in> set (drop 10 args) \<longleftrightarrow>
            (\<exists>v. sign_key gbl_metadata = Some v \<and> v \<noteq> PyNone))
       \<and> (Word ''--encrypt'' \<in> set (drop 10 args) \<longleftrightarrow>
            (\<exists>v. encrypt_key gbl_metadata = Some v \<and> v \<noteq> PyNone))"
proof -
  let ?head = "[Word ''commander'', Word ''gbl'', Word ''create'', PathArg out_gbl,
            Word (if ft = PyStr ''gecko-bootloader'' then ''--bootloader'' else ''--app''),
            PathArg out_file, Word ''--device'', Word device_part_id, Word ''--metadata'',
            PathArg (artifact_root @ [''gbl_metadata.json''])]"
  let ?tail = "option_tokens ''--compress'' (compression gbl_metadata)
           @ option_tokens ''--sign'' (sign_key gbl_metadata)
           @ option_tokens ''--encrypt'' (encrypt_key gbl_metadata)"
  have len: "length ?head = 10"
    by simp
  have args: "commander_args gbl_metadata out_gbl out_file device_part_id artifact_root
      = Inr (?head @ ?tail)"
    using assms by (simp add: commander_args_def required_def add_option_tokens Let_def)
  have take: "take 10 (?head @ ?tail) = ?head"
    using len by (metis append_eq_conv_conj)
  have drop: "drop 10 (?head @ ?tail) = ?tail"
    using len by (metis append_eq_conv_conj)
  have nth: "(?head @ ?tail) ! 4 = Word (if ft = PyStr ''gecko-bootloader'' then ''--bootloader'' else ''--app'')"
    by simp
  have member: "Word flag \<in> set (option_tokens flag' setting)
      \<longleftrightarrow> flag = flag' \<and> (\<exists>v. setting = Some v \<and> v \<noteq> PyNone)" for flag flag' setting
    by (cases setting) (auto simp: option_tokens_def)
  show ?thesis
    unfolding args
    apply (intro exI [of _ "?head @ ?tail"] conjI refl)
    subgoal by (rule take)
    subgoal unfolding nth by simp
    subgoal unfolding nth by simp
    subgoal by (rule drop)
    subgoal unfolding drop by (simp add: member)
    subgoal unfolding drop by (simp add: member)
    subgoal unfolding drop by (simp add: member)
    done
qed

text \<open>
  The theorem at a bootloader with no \<open>compression\<close>, a null \<open>sign_key\<close> and an \<open>encrypt_key\<close>.
\<close>

theorem commander_args_flags_witness:
  "commander_args bootloader_yaml [''build'', ''app.gbl''] [''build'', ''app.out''] ''EFR32MG21A020F768IM32''
     [''build'']
   = Inr [Word ''commander'', Word ''gbl'', Word ''create'', PathArg [''build'', ''app.gbl''],
          Word ''--bootloader'', PathArg [''build'', ''app.out''], Word ''--device'',
          Word ''EFR32MG21A020F768IM32'', Word ''--metadata'',
          PathArg [''build'', ''gbl_metadata.json''],
          Word ''--encrypt'', ValueArg (PyStr ''keys/encrypt.txt'')]"
proof -
  have "fw_type bootloader_yaml = Some (PyStr ''gecko-bootloader'')"
    by (simp add: bootloader_yaml_def)
  from commander_args_flags [OF this, of "[''build'', ''app.gbl'']" "[''build'', ''app.out'']"
      "''EFR32MG21A020F768IM32''" "[''build'']"]
  obtain args where args:
    "commander_args bootloader_yaml [''build'', ''app.gbl''] [''build'', ''app.out'']
       ''EFR32MG21A020F768IM32'' [''build''] = Inr args"
    "take 10 args = [Word ''commander'', Word ''gbl'', Word ''create'', PathArg [''build'', ''app.gbl''],
          Word ''--bootloader'', PathArg [''build'', ''app.out''], Word ''--device'',
          Word ''EFR32MG21A020F768IM32'', Word ''--metadata'',
          PathArg ([''build''] @ [''gbl_metadata.json''])]"
    "drop 10 args = option_tokens ''--compress'' (compression bootloader_yaml)
           @ option_tokens ''--sign'' (sign_key bootloader_yaml)
           @ option_tokens ''--encrypt'' (encrypt_key bootloader_yaml)"
    by auto
  have "args = take 10 args @ drop 10 args"
    by simp
  also have "\<dots> = [Word ''commander'', Word ''gbl'', Word ''create'', PathArg [''build'', ''app.gbl''],
          Word ''--bootloader'', PathArg [''build'', ''app.out''], Word ''--device'',
          Word ''EFR32MG21A020F768IM32'', Word ''--metadata'',
          PathArg [''build'', ''gbl_metadata.json''],
          Word ''--encrypt'', ValueArg (PyStr ''keys/encrypt.txt'')]"
    unfolding args(2,3) by (simp add: option_tokens_def bootloader_yaml_def)
  finally show ?thesis
    using args(1) by simp
qed

subsection \<open>The define parser\<close>

lemma length_py_split_ws: "length (py_split_ws n s) \<le> Suc n"
  by (induction n arbitrary: s) (simp_all add: Let_def)

lemma define_line_eq:
  "define_line literal_eval config line =
     (if \<not> py_startswith line ''#define'' then Inr config
      else if length (py_split_ws 2 line) \<le> 1 then Inl ValueError
      else assign_literal literal_eval config (define_name line) (define_value line))"
proof -
  have "length (py_split_ws 2 line) \<le> 3"
    using length_py_split_ws [of 2 line] by simp
  then consider "py_split_ws 2 line = []"
    | t where "py_split_ws 2 line = [t]"
    | t k where "py_split_ws 2 line = [t, k]"
    | t k v where "py_split_ws 2 line = [t, k, v]"
    by (cases "py_split_ws 2 line" rule: list.exhaust)
      (auto simp: length_Suc_conv le_Suc_eq numeral_3_eq_3)
  then show ?thesis
    by cases (simp_all add: define_line_def define_name_def define_value_def)
qed

lemma assign_literal_eq:
  "assign_literal literal_eval config key val =
     (case literal_eval val of
        Inr v \<Rightarrow> Inr (dict_set key v config)
      | Inl e \<Rightarrow> if e = ValueError \<or> e = SyntaxError then Inr config else Inl e)"
  by (simp add: assign_literal_def)

lemma for_lines_fails:
  assumes "raw \<in> set ls" and "\<And>s. \<exists>e. body s raw = Inl e"
  shows "\<exists>e. for_lines body ls s = Inl e"
  using assms(1)
proof (induction ls arbitrary: s)
  case Nil
  then show ?case by simp
next
  case (Cons l ls)
  show ?case
  proof (cases "body s l")
    case (Inl e)
    then show ?thesis by simp
  next
    case (Inr s')
    with Cons assms(2) [of s] show ?thesis
      by auto
  qed
qed

lemma first_token_define:
  assumes "py_startswith line ''#define''"
  shows "py_startswith (hd (py_split_ws 2 line)) ''#define''"
proof -
  from assms obtain rest where line: "line = ''#define'' @ rest"
    by (metis append_take_drop_id py_startswith_def)
  show ?thesis
    unfolding line by (simp add: py_startswith_def py_isspace_def Let_def numeral_2_eq_2)
qed

text \<open>
  Claim C10, as amended. A line that starts with \<^verbatim>\<open>#define\<close> at its first character and has
  no second item when split at whitespace (its first item then starts with \<^verbatim>\<open>#define\<close>) makes
  the unpacking of \<^verbatim>\<open>key_value + [None]\<close> raise \<^verbatim>\<open>ValueError\<close>, outside the \<^verbatim>\<open>try\<close>: the
  loop body raises instead of skipping the line, a file with such a line makes
  \<^verbatim>\<open>parse_c_header_defines\<close> raise, and the file that is exactly \<^verbatim>\<open>#define\<close> makes it raise
  \<^verbatim>\<open>ValueError\<close>.
\<close>

theorem define_without_name_raises:
  assumes "py_startswith line ''#define''"
    and "length (py_split_ws 2 line) = 1"
  shows "py_startswith (hd (py_split_ws 2 line)) ''#define''
       \<and> define_line literal_eval config line = Inl ValueError
       \<and> (CHR ''\<newline>'' \<notin> set line \<longrightarrow>
            parse_c_header_defines literal_eval line = Inl ValueError)
       \<and> (line \<in> set (py_split (CHR ''\<newline>'') file_content) \<longrightarrow>
            (\<exists>e. parse_c_header_defines literal_eval file_content = Inl e))
       \<and> parse_c_header_defines literal_eval ''#define'' = Inl ValueError"
proof (intro conjI impI)
  show "py_startswith (hd (py_split_ws 2 line)) ''#define''"
    using assms(1) by (rule first_token_define)
  show raises: "define_line literal_eval config line = Inl ValueError" for config
    using assms by (simp add: define_line_eq)
  show "parse_c_header_defines literal_eval line = Inl ValueError"
    if "CHR ''\<newline>'' \<notin> set line"
    using that by (simp add: parse_c_header_defines_def py_split_single raises)
  show "\<exists>e. parse_c_header_defines literal_eval file_content = Inl e"
    if "line \<in> set (py_split (CHR ''\<newline>'') file_content)"
    unfolding parse_c_header_defines_def using that
    by (rule for_lines_fails) (simp add: raises)
  have "py_split_ws 2 ''#define'' = [''#define'']"
    by code_simp
  then show "parse_c_header_defines literal_eval ''#define'' = Inl ValueError"
    by (simp add: parse_c_header_defines_def define_line_eq py_startswith_def)
qed

text \<open>
  The theorem at the line \<^verbatim>\<open>#define\<close> followed by two spaces, alone and after a good line.
\<close>

theorem define_without_name_raises_witness:
  "define_line sample_literal_eval [(''FOO'', PyInt 42)] ''#define  '' = Inl ValueError
     \<and> (\<exists>e. parse_c_header_defines sample_literal_eval ''#define FOO 42\<newline>#define  \<newline>'' = Inl e)"
proof -
  have 1: "py_startswith ''#define  '' ''#define''"
    by code_simp
  have 2: "length (py_split_ws 2 ''#define  '') = 1"
    by code_simp
  have 3: "''#define  '' \<in> set (py_split (CHR ''\<newline>'') ''#define FOO 42\<newline>#define  \<newline>'')"
    by code_simp
  from define_without_name_raises [OF 1 2, of sample_literal_eval "[(''FOO'', PyInt 42)]"
      "''#define FOO 42\<newline>#define  \<newline>''"] 3
  show ?thesis
    by blast
qed

text \<open>
  Claim C10 as it was stated fails on an indented line: the first item of \<^verbatim>\<open>  #define\<close> is
  \<^verbatim>\<open>#define\<close> and there is no second item, but the line does not start with \<^verbatim>\<open>#define\<close>,
  so it is skipped and the parse returns the empty dictionary.
\<close>

theorem indented_define_skipped:
  "py_split_ws 2 ''  #define'' = [''#define'']
     \<and> py_startswith (hd (py_split_ws 2 ''  #define'')) ''#define''
     \<and> parse_c_header_defines sample_literal_eval ''  #define'' = Inr []"
  by code_simp

lemma for_lines_define_origin:
  assumes "for_lines (define_line literal_eval) ls config = Inr config'"
    and "map_of config' k = Some v"
  shows "map_of config k = Some v
       \<or> (\<exists>line\<in>set ls. py_startswith line ''#define'' \<and> 2 \<le> length (py_split_ws 2 line)
             \<and> define_name line = k \<and> literal_eval (define_value line) = Inr v)"
  using assms
proof (induction ls arbitrary: config)
  case Nil
  then show ?case by simp
next
  case (Cons l ls)
  from Cons.prems(1) obtain mid where mid: "define_line literal_eval config l = Inr mid"
    and rest: "for_lines (define_line literal_eval) ls mid = Inr config'"
    by (auto split: sum.splits)
  from Cons.IH [OF rest Cons.prems(2)] show ?case
  proof
    assume "map_of mid k = Some v"
    with mid have "map_of config k = Some v
       \<or> (py_startswith l ''#define'' \<and> 2 \<le> length (py_split_ws 2 l)
             \<and> define_name l = k \<and> literal_eval (define_value l) = Inr v)"
      by (auto simp: define_line_eq assign_literal_eq map_of_dict_set
          split: if_splits sum.splits)
    then show ?thesis
      by auto
  next
    assume "\<exists>line\<in>set ls. py_startswith line ''#define'' \<and> 2 \<le> length (py_split_ws 2 line)
             \<and> define_name line = k \<and> literal_eval (define_value line) = Inr v"
    then show ?thesis
      by auto
  qed
qed

text \<open>
  What the loop body does with the answer of \<^verbatim>\<open>ast.literal_eval\<close>, whatever that answer
  is: an entry \<open>k\<close>, \<open>v\<close> of the dictionary \<^verbatim>\<open>parse_c_header_defines\<close> returns comes from a line
  that starts with \<^verbatim>\<open>#define\<close>, has the name \<open>k\<close> and a value that evaluates to \<open>v\<close>. On a line
  that starts with \<^verbatim>\<open>#define\<close> and has a name, the loop body stores the literal when the
  evaluation succeeds, and leaves the dictionary as it is when the evaluation raises
  \<^verbatim>\<open>ValueError\<close> or \<^verbatim>\<open>SyntaxError\<close>, as it does for the value \<^verbatim>\<open>None\<close> of a name with no
  value. With \<^verbatim>\<open>42\<close> evaluating to the number and \<^verbatim>\<open>"x"\<close> to the text, the three lines
  \<^verbatim>\<open>#define FOO 42\<close>, \<^verbatim>\<open>#define BAR "x"\<close>, \<^verbatim>\<open>#define BAZ\<close> give exactly \<open>FOO\<close> and \<open>BAR\<close>.
\<close>

theorem parse_c_header_defines_skips_value_errors:
  "(parse_c_header_defines literal_eval file_content = Inr parsed \<and> map_of parsed k = Some v \<longrightarrow>
      (\<exists>line\<in>set (py_split (CHR ''\<newline>'') file_content).
         py_startswith line ''#define'' \<and> 2 \<le> length (py_split_ws 2 line)
         \<and> define_name line = k \<and> literal_eval (define_value line) = Inr v))
   \<and> (py_startswith line ''#define'' \<and> 2 \<le> length (py_split_ws 2 line) \<longrightarrow>
        (literal_eval (define_value line) = Inr v \<longrightarrow>
           define_line literal_eval config line = Inr (dict_set (define_name line) v config))
        \<and> (literal_eval (define_value line) = Inl ValueError
             \<or> literal_eval (define_value line) = Inl SyntaxError \<longrightarrow>
           define_line literal_eval config line = Inr config)
        \<and> (length (py_split_ws 2 line) = 2 \<and> literal_eval None = Inl ValueError \<longrightarrow>
           define_line literal_eval config line = Inr config))
   \<and> (literal_eval (Some ''42'') = Inr (PyInt 42)
        \<and> literal_eval (Some ([CHR 0x22] @ ''x'' @ [CHR 0x22])) = Inr (PyStr ''x'')
        \<and> literal_eval None = Inl ValueError \<longrightarrow>
        parse_c_header_defines literal_eval
          (''#define FOO 42\<newline>#define BAR '' @ [CHR 0x22] @ ''x'' @ [CHR 0x22] @ ''\<newline>#define BAZ'')
        = Inr [(''FOO'', PyInt 42), (''BAR'', PyStr ''x'')])"
proof (intro conjI impI)
  assume "parse_c_header_defines literal_eval file_content = Inr parsed \<and> map_of parsed k = Some v"
  then show "\<exists>line\<in>set (py_split (CHR ''\<newline>'') file_content).
         py_startswith line ''#define'' \<and> 2 \<le> length (py_split_ws 2 line)
         \<and> define_name line = k \<and> literal_eval (define_value line) = Inr v"
    using for_lines_define_origin
      [of literal_eval "py_split (CHR ''\<newline>'') file_content" "[]" parsed k v]
    by (simp add: parse_c_header_defines_def)
next
  assume "py_startswith line ''#define'' \<and> 2 \<le> length (py_split_ws 2 line)"
    and "literal_eval (define_value line) = Inr v"
  then show "define_line literal_eval config line = Inr (dict_set (define_name line) v config)"
    by (simp add: define_line_eq assign_literal_eq)
next
  assume "py_startswith line ''#define'' \<and> 2 \<le> length (py_split_ws 2 line)"
    and "literal_eval (define_value line) = Inl ValueError
             \<or> literal_eval (define_value line) = Inl SyntaxError"
  then show "define_line literal_eval config line = Inr config"
    by (auto simp: define_line_eq assign_literal_eq)
next
  assume "py_startswith line ''#define'' \<and> 2 \<le> length (py_split_ws 2 line)"
    and "length (py_split_ws 2 line) = 2 \<and> literal_eval None = Inl ValueError"
  then show "define_line literal_eval config line = Inr config"
    by (simp add: define_line_eq assign_literal_eq define_value_def)
next
  let ?text = "''#define FOO 42\<newline>#define BAR '' @ [CHR 0x22] @ ''x'' @ [CHR 0x22] @ ''\<newline>#define BAZ''"
  assume ev: "literal_eval (Some ''42'') = Inr (PyInt 42)
        \<and> literal_eval (Some ([CHR 0x22] @ ''x'' @ [CHR 0x22])) = Inr (PyStr ''x'')
        \<and> literal_eval None = Inl ValueError"
  have lines: "py_split (CHR ''\<newline>'') ?text
      = [''#define FOO 42'', ''#define BAR '' @ [CHR 0x22] @ ''x'' @ [CHR 0x22], ''#define BAZ'']"
    by code_simp
  have foo: "py_split_ws 2 ''#define FOO 42'' = [''#define'', ''FOO'', ''42'']"
    by code_simp
  have bar: "py_split_ws 2 (''#define BAR '' @ [CHR 0x22] @ ''x'' @ [CHR 0x22])
      = [''#define'', ''BAR'', [CHR 0x22] @ ''x'' @ [CHR 0x22]]"
    by code_simp
  have baz: "py_split_ws 2 ''#define BAZ'' = [''#define'', ''BAZ'']"
    by code_simp
  have starts: "py_startswith ''#define FOO 42'' ''#define''"
    "py_startswith (''#define BAR '' @ [CHR 0x22] @ ''x'' @ [CHR 0x22]) ''#define''"
    "py_startswith ''#define BAZ'' ''#define''"
    by code_simp+
  have 1: "define_line literal_eval [] ''#define FOO 42'' = Inr [(''FOO'', PyInt 42)]"
    using ev starts(1)
    by (simp add: define_line_eq assign_literal_eq define_name_def define_value_def foo dict_set_def)
  have 2: "define_line literal_eval [(''FOO'', PyInt 42)] (''#define BAR '' @ [CHR 0x22] @ ''x'' @ [CHR 0x22])
      = Inr [(''FOO'', PyInt 42), (''BAR'', PyStr ''x'')]"
    using ev starts(2)
    by (simp add: define_line_eq assign_literal_eq define_name_def define_value_def bar dict_set_def
        del: append.simps)
  have 3: "define_line literal_eval [(''FOO'', PyInt 42), (''BAR'', PyStr ''x'')] ''#define BAZ''
      = Inr [(''FOO'', PyInt 42), (''BAR'', PyStr ''x'')]"
    using ev starts(3)
    by (simp add: define_line_eq assign_literal_eq define_name_def define_value_def baz)
  show "parse_c_header_defines literal_eval ?text = Inr [(''FOO'', PyInt 42), (''BAR'', PyStr ''x'')]"
    unfolding parse_c_header_defines_def lines by (simp add: 1 2 3 del: append.simps)
qed

text \<open>
  The theorem with the sample answers of \<^verbatim>\<open>ast.literal_eval\<close>: the three lines, and a value
  that is an expression, not a literal.
\<close>

theorem parse_c_header_defines_skips_value_errors_witness:
  "parse_c_header_defines sample_literal_eval
     (''#define FOO 42\<newline>#define BAR '' @ [CHR 0x22] @ ''x'' @ [CHR 0x22] @ ''\<newline>#define BAZ'')
   = Inr [(''FOO'', PyInt 42), (''BAR'', PyStr ''x'')]
   \<and> define_line sample_literal_eval [(''FOO'', PyInt 42)] ''#define SHIFT (1 << 3)''
       = Inr [(''FOO'', PyInt 42)]"
proof -
  have ev: "sample_literal_eval (Some ''42'') = Inr (PyInt 42)
        \<and> sample_literal_eval (Some ([CHR 0x22] @ ''x'' @ [CHR 0x22])) = Inr (PyStr ''x'')
        \<and> sample_literal_eval None = Inl ValueError"
    by (simp add: sample_literal_eval_def)
  have line: "py_startswith ''#define SHIFT (1 << 3)'' ''#define''
      \<and> 2 \<le> length (py_split_ws 2 ''#define SHIFT (1 << 3)'')"
    by code_simp
  have "define_value ''#define SHIFT (1 << 3)'' = Some ''(1 << 3)''"
    by code_simp
  then have fails: "sample_literal_eval (define_value ''#define SHIFT (1 << 3)'') = Inl ValueError
      \<or> sample_literal_eval (define_value ''#define SHIFT (1 << 3)'') = Inl SyntaxError"
    by (simp add: sample_literal_eval_def)
  from parse_c_header_defines_skips_value_errors
    [where literal_eval = sample_literal_eval and line = "''#define SHIFT (1 << 3)''"
      and config = "[(''FOO'', PyInt 42)]"]
    ev line fails
  show ?thesis
    by blast
qed

text \<open>
  Claim C6: a line whose value fails literal evaluation is skipped without raising. The code
  does not do so for every failure. A nested brace initialiser reads as a set of sets, for
  which \<^verbatim>\<open>ast.literal_eval\<close> raises \<^verbatim>\<open>TypeError\<close>; the clause
  \<^verbatim>\<open>except (ValueError, SyntaxError)\<close> does not name it, and \<^verbatim>\<open>parse_c_header_defines\<close>
  raises instead of skipping the line.
\<close>

theorem parse_c_header_defines_type_error:
  "define_value ''#define INIT {{1, 2}, {3, 4}}'' = Some ''{{1, 2}, {3, 4}}''
     \<and> sample_literal_eval (Some ''{{1, 2}, {3, 4}}'') = Inl TypeError
     \<and> parse_c_header_defines sample_literal_eval ''#define INIT {{1, 2}, {3, 4}}'' = Inl TypeError"
  by code_simp

subsection \<open>The metadata resolver\<close>

lemma and_then_Inr_iff:
  "and_then r f = Inr b \<longleftrightarrow> (\<exists>a. r = Inr a \<and> f a = Inr b)"
  by (cases r) simp_all

lemma dict_set_twice: "dict_set k v (dict_set k v' d) = dict_set k v d"
  by (simp add: dict_set_def)

lemma keys_dict_set:
  "map fst (dict_set k v d) = (if k \<in> set (map fst d) then map fst d else map fst d @ [k])"
  by (induction d) (auto simp: dict_set_def)

lemma ezsp_version_step_result:
  "ezsp_version_step tree names metadata = Inr metadata' \<Longrightarrow>
     \<exists>v. metadata' = (if ''ezsp_version'' \<in> set names then dict_set ''ezsp_version'' v metadata else metadata)"
  by (auto simp: ezsp_version_step_def and_then_Inr_iff split: if_splits)

lemma zwave_version_step_result:
  "zwave_version_step tree names metadata = Inr metadata' \<Longrightarrow>
     \<exists>v. metadata' = (if ''zwave_version'' \<in> set names then dict_set ''zwave_version'' v metadata else metadata)"
  by (auto simp: zwave_version_step_def and_then_Inr_iff split: if_splits)

lemma ot_rcp_version_step_result:
  "ot_rcp_version_step literal_eval tree names metadata = Inr metadata' \<Longrightarrow>
     \<exists>v. metadata' = (if ''ot_rcp_version'' \<in> set names then dict_set ''ot_rcp_version'' v metadata else metadata)"
  by (auto simp: ot_rcp_version_step_def and_then_Inr_iff split: if_splits)

lemma gecko_bootloader_version_step_result:
  "gecko_bootloader_version_step literal_eval tree names metadata = Inr metadata' \<Longrightarrow>
     \<exists>v. metadata' = (if ''gecko_bootloader_version'' \<in> set names
                       then dict_set ''gecko_bootloader_version'' v metadata else metadata)"
  by (auto simp: gecko_bootloader_version_step_def and_then_Inr_iff split: if_splits)

lemma append_suffix_result:
  "append_suffix version extra metadata = Inr metadata' \<Longrightarrow>
     \<exists>v. metadata' = dict_set ''cpc_version'' v metadata"
  by (auto simp: append_suffix_def split: py_value.splits)

lemma cpc_version_step_result:
  "cpc_version_step literal_eval tree names metadata = Inr metadata' \<Longrightarrow>
     \<exists>v. metadata' = (if ''cpc_version'' \<in> set names then dict_set ''cpc_version'' v metadata else metadata)"
  by (auto simp: cpc_version_step_def and_then_Inr_iff Let_def dict_set_twice
      split: if_splits dest!: append_suffix_result)

lemma initial_metadata_Inr:
  "initial_metadata sdk_version gbl_metadata = Inr m0 \<longleftrightarrow>
     (\<exists>sv ft br. sdk_version = Some sv \<and> fw_type gbl_metadata = Some ft
        \<and> baudrate gbl_metadata = Some br
        \<and> m0 = [(''metadata_version'', PyInt 1), (''sdk_version'', sv), (''fw_type'', ft),
                (''baudrate'', br)])"
  by (cases sdk_version; cases "fw_type gbl_metadata"; cases "baudrate gbl_metadata")
    (auto simp: initial_metadata_def required_def)

lemma resolve_metadata_Inr:
  assumes "resolve_metadata literal_eval tree sdk_version gbl_metadata = Inr metadata"
  obtains m0 m1 m2 m3 m4 where
    "initial_metadata sdk_version gbl_metadata = Inr m0"
    "ezsp_version_step tree (declared_fields gbl_metadata) m0 = Inr m1"
    "cpc_version_step literal_eval tree (declared_fields gbl_metadata) m1 = Inr m2"
    "zwave_version_step tree (declared_fields gbl_metadata) m2 = Inr m3"
    "ot_rcp_version_step literal_eval tree (declared_fields gbl_metadata) m3 = Inr m4"
    "gecko_bootloader_version_step literal_eval tree (declared_fields gbl_metadata) m4 = Inr metadata"
  using assms
  by (auto simp: resolve_metadata_def and_then_Inr_iff Let_def declared_fields_def)

lemma resolve_metadata_keys:
  assumes "resolve_metadata literal_eval tree sdk_version gbl_metadata = Inr metadata"
  shows "map fst metadata
           = base_fields @ filter (\<lambda>name. name \<in> set (declared_fields gbl_metadata)) recognised_fields"
    and "map_of metadata ''metadata_version'' = Some (PyInt 1)"
    and "map_of metadata ''sdk_version'' = sdk_version"
    and "map_of metadata ''fw_type'' = fw_type gbl_metadata"
    and "map_of metadata ''baudrate'' = baudrate gbl_metadata"
proof -
  let ?names = "declared_fields gbl_metadata"
  from assms obtain m0 m1 m2 m3 m4 where
    m0: "initial_metadata sdk_version gbl_metadata = Inr m0" and
    m1: "ezsp_version_step tree ?names m0 = Inr m1" and
    m2: "cpc_version_step literal_eval tree ?names m1 = Inr m2" and
    m3: "zwave_version_step tree ?names m2 = Inr m3" and
    m4: "ot_rcp_version_step literal_eval tree ?names m3 = Inr m4" and
    m5: "gecko_bootloader_version_step literal_eval tree ?names m4 = Inr metadata"
    by (rule resolve_metadata_Inr)
  from m0 obtain sv ft br where base: "sdk_version = Some sv" "fw_type gbl_metadata = Some ft"
      "baudrate gbl_metadata = Some br"
      "m0 = [(''metadata_version'', PyInt 1), (''sdk_version'', sv), (''fw_type'', ft),
             (''baudrate'', br)]"
    by (auto simp: initial_metadata_Inr)
  from ezsp_version_step_result [OF m1] obtain v1 where
    s1: "m1 = (if ''ezsp_version'' \<in> set ?names then dict_set ''ezsp_version'' v1 m0 else m0)" ..
  from cpc_version_step_result [OF m2] obtain v2 where
    s2: "m2 = (if ''cpc_version'' \<in> set ?names then dict_set ''cpc_version'' v2 m1 else m1)" ..
  from zwave_version_step_result [OF m3] obtain v3 where
    s3: "m3 = (if ''zwave_version'' \<in> set ?names then dict_set ''zwave_version'' v3 m2 else m2)" ..
  from ot_rcp_version_step_result [OF m4] obtain v4 where
    s4: "m4 = (if ''ot_rcp_version'' \<in> set ?names then dict_set ''ot_rcp_version'' v4 m3 else m3)" ..
  from gecko_bootloader_version_step_result [OF m5] obtain v5 where
    s5: "metadata = (if ''gecko_bootloader_version'' \<in> set ?names
                     then dict_set ''gecko_bootloader_version'' v5 m4 else m4)" ..
  have k0: "map fst m0 = base_fields"
    by (simp add: base base_fields_def)
  have k1: "map fst m1 = base_fields @ filter (\<lambda>name. name \<in> set ?names) [''ezsp_version'']"
    unfolding s1 by (simp add: keys_dict_set k0) (simp add: base_fields_def)
  have k2: "map fst m2 = base_fields
      @ filter (\<lambda>name. name \<in> set ?names) [''ezsp_version'', ''cpc_version'']"
    unfolding s2 by (simp add: keys_dict_set k1) (simp add: base_fields_def)
  have k3: "map fst m3 = base_fields
      @ filter (\<lambda>name. name \<in> set ?names) [''ezsp_version'', ''cpc_version'', ''zwave_version'']"
    unfolding s3 by (simp add: keys_dict_set k2) (simp add: base_fields_def)
  have k4: "map fst m4 = base_fields
      @ filter (\<lambda>name. name \<in> set ?names)
          [''ezsp_version'', ''cpc_version'', ''zwave_version'', ''ot_rcp_version'']"
    unfolding s4 by (simp add: keys_dict_set k3) (simp add: base_fields_def)
  show "map fst metadata = base_fields @ filter (\<lambda>name. name \<in> set ?names) recognised_fields"
    unfolding s5 recognised_fields_def by (simp add: keys_dict_set k4) (simp add: base_fields_def)
  have keep: "map_of metadata k = map_of m0 k" if "k \<in> set base_fields" for k
    using that unfolding s5 s4 s3 s2 s1
    by (auto simp: map_of_dict_set base_fields_def)
  show "map_of metadata ''metadata_version'' = Some (PyInt 1)"
    by (simp add: keep base_fields_def) (simp add: base)
  show "map_of metadata ''sdk_version'' = sdk_version"
    by (simp add: keep base_fields_def) (simp add: base)
  show "map_of metadata ''fw_type'' = fw_type gbl_metadata"
    by (simp add: keep base_fields_def) (simp add: base)
  show "map_of metadata ''baudrate'' = baudrate gbl_metadata"
    by (simp add: keep base_fields_def) (simp add: base)
qed

lemma resolve_metadata_ignores_unknown:
  "resolve_metadata literal_eval tree sdk_version (gbl_metadata\<lparr>dynamic := Some names\<rparr>)
     = resolve_metadata literal_eval tree sdk_version
         (gbl_metadata\<lparr>dynamic := Some (filter (\<lambda>name. name \<in> set recognised_fields) names)\<rparr>)"
  by (simp add: resolve_metadata_def initial_metadata_def ezsp_version_step_def
      cpc_version_step_def zwave_version_step_def ot_rcp_version_step_def
      gecko_bootloader_version_step_def recognised_fields_def)

lemma resolve_metadata_unknown_only:
  assumes "set names \<inter> set recognised_fields = {}"
  shows "resolve_metadata literal_eval tree sdk_version (gbl_metadata\<lparr>dynamic := Some names\<rparr>)
     = initial_metadata sdk_version gbl_metadata"
proof -
  have "''ezsp_version'' \<notin> set names" "''cpc_version'' \<notin> set names" "''zwave_version'' \<notin> set names"
    "''ot_rcp_version'' \<notin> set names" "''gecko_bootloader_version'' \<notin> set names"
    using assms by (auto simp: recognised_fields_def)
  then show ?thesis
    by (cases "initial_metadata sdk_version gbl_metadata")
      (simp_all add: resolve_metadata_def initial_metadata_def ezsp_version_step_def
        cpc_version_step_def zwave_version_step_def ot_rcp_version_step_def
        gecko_bootloader_version_step_def)
qed

lemma py_str_small [simp]: "py_str (PyInt 4) = ''4''" "py_str (PyInt 2) = ''2''" "py_str (PyInt 0) = ''0''"
  by (simp_all add: py_str_def str_nat.simps)

lemma read_text_present:
  "fs p = Some (RegularFile content) \<Longrightarrow> read_text fs p = Inr content"
  by (simp add: read_text_def)


lemma internal_app_config_absent:
  "read_text (files tree) (project_root tree @ [''config'', ''internal_app_config.h''])
     = Inl FileNotFoundError \<Longrightarrow>
     internal_app_config literal_eval tree = Inr []"
  by (simp add: internal_app_config_def)

lemma internal_app_config_unreadable:
  "read_text (files tree) (project_root tree @ [''config'', ''internal_app_config.h'']) = Inl e
     \<Longrightarrow> e \<noteq> FileNotFoundError
     \<Longrightarrow> internal_app_config literal_eval tree = Inl e"
  by (simp add: internal_app_config_def)

lemma internal_app_config_present:
  "files tree (project_root tree @ [''config'', ''internal_app_config.h'']) = Some (RegularFile content)
     \<Longrightarrow> parse_c_header_defines literal_eval content = Inr config
     \<Longrightarrow> internal_app_config literal_eval tree = Inr config"
  by (simp add: internal_app_config_def read_text_present)

lemma resolve_metadata_cpc:
  assumes "resolve_metadata literal_eval tree sdk_version gbl_metadata = Inr final"
  obtains m1 m2 where
    "cpc_version_step literal_eval tree (declared_fields gbl_metadata) m1 = Inr m2"
    "map_of final ''cpc_version'' = map_of m2 ''cpc_version''"
proof -
  let ?names = "declared_fields gbl_metadata"
  from assms obtain m0 m1 m2 m3 m4 where
    m2: "cpc_version_step literal_eval tree ?names m1 = Inr m2" and
    m3: "zwave_version_step tree ?names m2 = Inr m3" and
    m4: "ot_rcp_version_step literal_eval tree ?names m3 = Inr m4" and
    m5: "gecko_bootloader_version_step literal_eval tree ?names m4 = Inr final"
    by (rule resolve_metadata_Inr)
  from zwave_version_step_result [OF m3] obtain v3 where
    s3: "m3 = (if ''zwave_version'' \<in> set ?names then dict_set ''zwave_version'' v3 m2 else m2)" ..
  from ot_rcp_version_step_result [OF m4] obtain v4 where
    s4: "m4 = (if ''ot_rcp_version'' \<in> set ?names then dict_set ''ot_rcp_version'' v4 m3 else m3)" ..
  from gecko_bootloader_version_step_result [OF m5] obtain v5 where
    s5: "final = (if ''gecko_bootloader_version'' \<in> set ?names
                     then dict_set ''gecko_bootloader_version'' v5 m4 else m4)" ..
  have "map_of final ''cpc_version'' = map_of m2 ''cpc_version''"
    unfolding s5 s4 s3 by (simp add: map_of_dict_set)
  with m2 show thesis
    by (rule that)
qed

lemma resolve_metadata_cpc_only:
  assumes "dynamic gbl_metadata = Some names"
    and "set names \<inter> set recognised_fields = {''cpc_version''}"
    and "initial_metadata sdk_version gbl_metadata = Inr initial"
    and "cpc_version_step literal_eval tree names initial = Inr metadata"
  shows "resolve_metadata literal_eval tree sdk_version gbl_metadata = Inr metadata"
proof -
  have only: "name = ''cpc_version''" if "name \<in> set names" "name \<in> set recognised_fields" for name
    using that assms(2) by blast
  have "''ezsp_version'' \<notin> set names"
  proof
    assume "''ezsp_version'' \<in> set names"
    then have "''ezsp_version'' = ''cpc_version''"
      by (rule only) (simp add: recognised_fields_def)
    then show False
      by simp
  qed
  moreover have "''zwave_version'' \<notin> set names"
  proof
    assume "''zwave_version'' \<in> set names"
    then have "''zwave_version'' = ''cpc_version''"
      by (rule only) (simp add: recognised_fields_def)
    then show False
      by simp
  qed
  moreover have "''ot_rcp_version'' \<notin> set names"
  proof
    assume "''ot_rcp_version'' \<in> set names"
    then have "''ot_rcp_version'' = ''cpc_version''"
      by (rule only) (simp add: recognised_fields_def)
    then show False
      by simp
  qed
  moreover have "''gecko_bootloader_version'' \<notin> set names"
  proof
    assume "''gecko_bootloader_version'' \<in> set names"
    then have "''gecko_bootloader_version'' = ''cpc_version''"
      by (rule only) (simp add: recognised_fields_def)
    then show False
      by simp
  qed
  ultimately show ?thesis
    using assms(1,3,4)
    by (simp add: resolve_metadata_def ezsp_version_step_def zwave_version_step_def
        ot_rcp_version_step_def gecko_bootloader_version_step_def)
qed

text \<open>
  Claim C2. Let \<open>cpc_version\<close> be in the declared list and let the SDK version header parse to a
  mapping with \<open>SL_GSDK_MAJOR_VERSION\<close> 4, \<open>SL_GSDK_MINOR_VERSION\<close> 2 and
  \<open>SL_GSDK_PATCH_VERSION\<close> 0. When \<open>config/internal_app_config.h\<close> is missing, that is when
  reading it raises \<^verbatim>\<open>FileNotFoundError\<close>, the \<open>cpc_version\<close> step does not raise and sets
  \<open>cpc_version\<close> to \<open>4.2.0\<close>; when that header parses to a mapping with
  \<open>CPC_SECONDARY_APP_VERSION_SUFFIX\<close> the string \<open>-beta\<close>, the step sets \<open>cpc_version\<close> to
  \<open>4.2.0-beta\<close>. In both cases this is the \<open>cpc_version\<close> of every record the resolver returns,
  and with \<open>cpc_version\<close> the only recognised name of the list and the base fields in the
  project files, the resolver returns the initial record with that \<open>cpc_version\<close>. When
  reading the header raises anything else, as when \<open>config\<close> is a regular file, the step
  raises it.
\<close>

theorem cpc_version_value:
  assumes "''cpc_version'' \<in> set names"
    and "files tree (gsdk_path tree @ [''platform'', ''common'', ''inc'', ''sl_gsdk_version.h''])
           = Some (RegularFile header)"
    and "parse_c_header_defines literal_eval header = Inr sl_gsdk_version_h"
    and "map_of sl_gsdk_version_h ''SL_GSDK_MAJOR_VERSION'' = Some (PyInt 4)"
    and "map_of sl_gsdk_version_h ''SL_GSDK_MINOR_VERSION'' = Some (PyInt 2)"
    and "map_of sl_gsdk_version_h ''SL_GSDK_PATCH_VERSION'' = Some (PyInt 0)"
  shows "(read_text (files tree) (project_root tree @ [''config'', ''internal_app_config.h''])
             = Inl FileNotFoundError \<longrightarrow>
            cpc_version_step literal_eval tree names metadata
              = Inr (dict_set ''cpc_version'' (PyStr ''4.2.0'') metadata)
            \<and> (dynamic gbl_metadata = Some names
                 \<and> resolve_metadata literal_eval tree sdk_version gbl_metadata = Inr final
               \<longrightarrow> map_of final ''cpc_version'' = Some (PyStr ''4.2.0''))
            \<and> (dynamic gbl_metadata = Some names
                 \<and> set names \<inter> set recognised_fields = {''cpc_version''}
                 \<and> initial_metadata sdk_version gbl_metadata = Inr initial
               \<longrightarrow> resolve_metadata literal_eval tree sdk_version gbl_metadata
                     = Inr (dict_set ''cpc_version'' (PyStr ''4.2.0'') initial)))
       \<and> (files tree (project_root tree @ [''config'', ''internal_app_config.h''])
             = Some (RegularFile internal)
           \<and> parse_c_header_defines literal_eval internal = Inr internal_app_config_h
           \<and> map_of internal_app_config_h ''CPC_SECONDARY_APP_VERSION_SUFFIX'' = Some (PyStr ''-beta'')
          \<longrightarrow>
            cpc_version_step literal_eval tree names metadata
              = Inr (dict_set ''cpc_version'' (PyStr ''4.2.0-beta'') metadata)
            \<and> (dynamic gbl_metadata = Some names
                 \<and> resolve_metadata literal_eval tree sdk_version gbl_metadata = Inr final
               \<longrightarrow> map_of final ''cpc_version'' = Some (PyStr ''4.2.0-beta''))
            \<and> (dynamic gbl_metadata = Some names
                 \<and> set names \<inter> set recognised_fields = {''cpc_version''}
                 \<and> initial_metadata sdk_version gbl_metadata = Inr initial
               \<longrightarrow> resolve_metadata literal_eval tree sdk_version gbl_metadata
                     = Inr (dict_set ''cpc_version'' (PyStr ''4.2.0-beta'') initial)))
       \<and> (read_text (files tree) (project_root tree @ [''config'', ''internal_app_config.h''])
             = Inl e \<and> e \<noteq> FileNotFoundError \<longrightarrow>
            cpc_version_step literal_eval tree names metadata = Inl e)"
proof -
  have every_record: "map_of final ''cpc_version'' = Some v"
    if step: "\<And>metadata. cpc_version_step literal_eval tree names metadata
                = Inr (dict_set ''cpc_version'' v metadata)"
      and "dynamic gbl_metadata = Some names
            \<and> resolve_metadata literal_eval tree sdk_version gbl_metadata = Inr final"
    for v final gbl_metadata sdk_version
  proof -
    from that(2) have names: "declared_fields gbl_metadata = names"
      and "resolve_metadata literal_eval tree sdk_version gbl_metadata = Inr final"
      by (simp_all add: declared_fields_def)
    then obtain m1 m2 where "cpc_version_step literal_eval tree names m1 = Inr m2"
      "map_of final ''cpc_version'' = map_of m2 ''cpc_version''"
      by (auto elim: resolve_metadata_cpc)
    then show ?thesis
      by (auto simp: step map_of_dict_set)
  qed
  have only_cpc: "resolve_metadata literal_eval tree sdk_version gbl_metadata
                     = Inr (dict_set ''cpc_version'' v initial)"
    if step: "\<And>metadata. cpc_version_step literal_eval tree names metadata
                = Inr (dict_set ''cpc_version'' v metadata)"
      and "dynamic gbl_metadata = Some names
                 \<and> set names \<inter> set recognised_fields = {''cpc_version''}
                 \<and> initial_metadata sdk_version gbl_metadata = Inr initial"
    for v initial gbl_metadata sdk_version
    using that(2) by (intro resolve_metadata_cpc_only [where names = names and initial = initial])
      (simp_all add: step)
  have header: "read_text (files tree)
      (gsdk_path tree @ [''platform'', ''common'', ''inc'', ''sl_gsdk_version.h'']) = Inr header"
    using assms(2) by (rule read_text_present)
  have plain: "cpc_version_step literal_eval tree names metadata
              = Inr (dict_set ''cpc_version'' (PyStr ''4.2.0'') metadata)"
    if "read_text (files tree) (project_root tree @ [''config'', ''internal_app_config.h''])
             = Inl FileNotFoundError" for metadata
    using assms(1,3-6) header
    by (simp add: cpc_version_step_def dict_get_def dict_has_def
        internal_app_config_absent [OF that])
  have beta: "cpc_version_step literal_eval tree names metadata
              = Inr (dict_set ''cpc_version'' (PyStr ''4.2.0-beta'') metadata)"
    if "files tree (project_root tree @ [''config'', ''internal_app_config.h''])
             = Some (RegularFile internal)
           \<and> parse_c_header_defines literal_eval internal = Inr internal_app_config_h
           \<and> map_of internal_app_config_h ''CPC_SECONDARY_APP_VERSION_SUFFIX'' = Some (PyStr ''-beta'')"
    for metadata
  proof -
    from that have "internal_app_config literal_eval tree = Inr internal_app_config_h"
      by (simp add: internal_app_config_present)
    with that assms(1,3-6) header show ?thesis
      by (simp add: cpc_version_step_def dict_get_def dict_has_def append_suffix_def dict_set_twice)
  qed
  have unreadable: "cpc_version_step literal_eval tree names metadata = Inl e"
    if "read_text (files tree) (project_root tree @ [''config'', ''internal_app_config.h''])
             = Inl e \<and> e \<noteq> FileNotFoundError"
  proof -
    from that have "internal_app_config literal_eval tree = Inl e"
      by (simp add: internal_app_config_unreadable)
    with assms(1,3-6) header show ?thesis
      by (simp add: cpc_version_step_def dict_get_def)
  qed
  show ?thesis
  proof (intro conjI impI)
    assume absent: "read_text (files tree)
        (project_root tree @ [''config'', ''internal_app_config.h'']) = Inl FileNotFoundError"
    show "cpc_version_step literal_eval tree names metadata
              = Inr (dict_set ''cpc_version'' (PyStr ''4.2.0'') metadata)"
      using absent by (rule plain)
    show "map_of final ''cpc_version'' = Some (PyStr ''4.2.0'')"
      if "dynamic gbl_metadata = Some names
            \<and> resolve_metadata literal_eval tree sdk_version gbl_metadata = Inr final"
      using plain [OF absent] that by (rule every_record)
    show "resolve_metadata literal_eval tree sdk_version gbl_metadata
            = Inr (dict_set ''cpc_version'' (PyStr ''4.2.0'') initial)"
      if "dynamic gbl_metadata = Some names
                 \<and> set names \<inter> set recognised_fields = {''cpc_version''}
                 \<and> initial_metadata sdk_version gbl_metadata = Inr initial"
      using plain [OF absent] that by (rule only_cpc)
  next
    assume present: "files tree (project_root tree @ [''config'', ''internal_app_config.h''])
             = Some (RegularFile internal)
           \<and> parse_c_header_defines literal_eval internal = Inr internal_app_config_h
           \<and> map_of internal_app_config_h ''CPC_SECONDARY_APP_VERSION_SUFFIX'' = Some (PyStr ''-beta'')"
    show "cpc_version_step literal_eval tree names metadata
              = Inr (dict_set ''cpc_version'' (PyStr ''4.2.0-beta'') metadata)"
      using present by (rule beta)
    show "map_of final ''cpc_version'' = Some (PyStr ''4.2.0-beta'')"
      if "dynamic gbl_metadata = Some names
            \<and> resolve_metadata literal_eval tree sdk_version gbl_metadata = Inr final"
      using beta [OF present] that by (rule every_record)
    show "resolve_metadata literal_eval tree sdk_version gbl_metadata
            = Inr (dict_set ''cpc_version'' (PyStr ''4.2.0-beta'') initial)"
      if "dynamic gbl_metadata = Some names
                 \<and> set names \<inter> set recognised_fields = {''cpc_version''}
                 \<and> initial_metadata sdk_version gbl_metadata = Inr initial"
      using beta [OF present] that by (rule only_cpc)
  next
    assume "read_text (files tree) (project_root tree @ [''config'', ''internal_app_config.h''])
             = Inl e \<and> e \<noteq> FileNotFoundError"
    then show "cpc_version_step literal_eval tree names metadata = Inl e"
      by (rule unreadable)
  qed
qed

text \<open>
  The theorem on the example tree with the declared list \<open>[cpc_version]\<close>, without and with
  \<open>internal_app_config.h\<close>: the record the resolver returns.
\<close>

theorem cpc_version_value_witness:
  "resolve_metadata sample_literal_eval sdk_tree (Some (PyStr ''4.4.0'')) (ncp_yaml [''cpc_version''])
     = Inr [(''metadata_version'', PyInt 1), (''sdk_version'', PyStr ''4.4.0''),
            (''fw_type'', PyStr ''ncp-uart-hw''), (''baudrate'', PyInt 115200),
            (''cpc_version'', PyStr ''4.2.0'')]
   \<and> resolve_metadata sample_literal_eval sdk_tree_beta (Some (PyStr ''4.4.0''))
       (ncp_yaml [''cpc_version''])
     = Inr [(''metadata_version'', PyInt 1), (''sdk_version'', PyStr ''4.4.0''),
            (''fw_type'', PyStr ''ncp-uart-hw''), (''baudrate'', PyInt 115200),
            (''cpc_version'', PyStr ''4.2.0-beta'')]"
proof
  let ?header = "''#ifndef SL_GSDK_VERSION_H\<newline>#define SL_GSDK_MAJOR_VERSION 4\<newline>''
              @ ''#define SL_GSDK_MINOR_VERSION 2\<newline>#define SL_GSDK_PATCH_VERSION 0\<newline>#endif\<newline>''"
  let ?defines = "[(''SL_GSDK_MAJOR_VERSION'', PyInt 4), (''SL_GSDK_MINOR_VERSION'', PyInt 2),
      (''SL_GSDK_PATCH_VERSION'', PyInt 0)]"
  let ?internal = "''#define CPC_SECONDARY_APP_VERSION_SUFFIX '' @ [CHR 0x22] @ ''-beta''
            @ [CHR 0x22] @ ''\<newline>''"
  let ?initial = "[(''metadata_version'', PyInt 1), (''sdk_version'', PyStr ''4.4.0''),
            (''fw_type'', PyStr ''ncp-uart-hw''), (''baudrate'', PyInt 115200)]"
  have requested: "''cpc_version'' \<in> set [''cpc_version'']"
    by simp
  have parsed: "parse_c_header_defines sample_literal_eval ?header = Inr ?defines"
    by code_simp
  have major: "map_of ?defines ''SL_GSDK_MAJOR_VERSION'' = Some (PyInt 4)"
    and minor: "map_of ?defines ''SL_GSDK_MINOR_VERSION'' = Some (PyInt 2)"
    and patch: "map_of ?defines ''SL_GSDK_PATCH_VERSION'' = Some (PyInt 0)"
    by simp_all
  have declared: "dynamic (ncp_yaml [''cpc_version'']) = Some [''cpc_version'']"
    by (simp add: ncp_yaml_def)
  have only: "set [''cpc_version''] \<inter> set recognised_fields = {''cpc_version''}"
    by (simp add: recognised_fields_def)
  have initial: "initial_metadata (Some (PyStr ''4.4.0'')) (ncp_yaml [''cpc_version'']) = Inr ?initial"
    by (simp add: initial_metadata_def required_def ncp_yaml_def)
  have set_new: "dict_set ''cpc_version'' v ?initial = ?initial @ [(''cpc_version'', v)]" for v
    by (simp add: dict_set_def)
  have header: "files sdk_tree (gsdk_path sdk_tree @ [''platform'', ''common'', ''inc'', ''sl_gsdk_version.h''])
      = Some (RegularFile ?header)"
    by (simp add: sdk_tree_def)
  have absent: "read_text (files sdk_tree) (project_root sdk_tree @ [''config'', ''internal_app_config.h''])
      = Inl FileNotFoundError"
    by code_simp
  from cpc_version_value [OF requested header parsed major minor patch,
      where gbl_metadata = "ncp_yaml [''cpc_version'']" and sdk_version = "Some (PyStr ''4.4.0'')"
        and initial = ?initial]
    absent declared only initial
  have "resolve_metadata sample_literal_eval sdk_tree (Some (PyStr ''4.4.0''))
      (ncp_yaml [''cpc_version'']) = Inr (dict_set ''cpc_version'' (PyStr ''4.2.0'') ?initial)"
    by blast
  then show "resolve_metadata sample_literal_eval sdk_tree (Some (PyStr ''4.4.0''))
      (ncp_yaml [''cpc_version''])
     = Inr [(''metadata_version'', PyInt 1), (''sdk_version'', PyStr ''4.4.0''),
            (''fw_type'', PyStr ''ncp-uart-hw''), (''baudrate'', PyInt 115200),
            (''cpc_version'', PyStr ''4.2.0'')]"
    by (simp add: set_new)
  have header': "files sdk_tree_beta
      (gsdk_path sdk_tree_beta @ [''platform'', ''common'', ''inc'', ''sl_gsdk_version.h''])
      = Some (RegularFile ?header)"
    by (simp add: sdk_tree_beta_def sdk_tree_def)
  have present: "files sdk_tree_beta (project_root sdk_tree_beta @ [''config'', ''internal_app_config.h''])
      = Some (RegularFile ?internal)"
    by (simp add: sdk_tree_beta_def sdk_tree_def)
  have internal: "parse_c_header_defines sample_literal_eval ?internal
      = Inr [(''CPC_SECONDARY_APP_VERSION_SUFFIX'', PyStr ''-beta'')]"
    by code_simp
  have beta: "map_of [(''CPC_SECONDARY_APP_VERSION_SUFFIX'', PyStr ''-beta'')]
      ''CPC_SECONDARY_APP_VERSION_SUFFIX'' = Some (PyStr ''-beta'')"
    by simp
  from cpc_version_value [OF requested header' parsed major minor patch,
      where internal = ?internal
        and internal_app_config_h = "[(''CPC_SECONDARY_APP_VERSION_SUFFIX'', PyStr ''-beta'')]"
        and gbl_metadata = "ncp_yaml [''cpc_version'']" and sdk_version = "Some (PyStr ''4.4.0'')"
        and initial = ?initial]
    present internal beta declared only initial
  have "resolve_metadata sample_literal_eval sdk_tree_beta (Some (PyStr ''4.4.0''))
      (ncp_yaml [''cpc_version'']) = Inr (dict_set ''cpc_version'' (PyStr ''4.2.0-beta'') ?initial)"
    by blast
  then show "resolve_metadata sample_literal_eval sdk_tree_beta (Some (PyStr ''4.4.0''))
       (ncp_yaml [''cpc_version''])
     = Inr [(''metadata_version'', PyInt 1), (''sdk_version'', PyStr ''4.4.0''),
            (''fw_type'', PyStr ''ncp-uart-hw''), (''baudrate'', PyInt 115200),
            (''cpc_version'', PyStr ''4.2.0-beta'')]"
    by (simp add: set_new)
qed

text \<open>
  Claim C4. The keys of a record the resolver returns are, in this order, the four base fields
  and then the recognised names that are in the declared list; \<open>metadata_version\<close> is 1 and the
  other three base fields are the values of the project files. A declared list and the same
  list without its unrecognised names give the same result, whether a record or an
  exception; a list with unrecognised names only gives the initial record, whatever the
  files are: such names add no field, read no file and raise nothing.
\<close>

theorem resolved_metadata_fields:
  "(resolve_metadata literal_eval tree sdk_version gbl_metadata = Inr metadata \<longrightarrow>
      map fst metadata
        = base_fields @ filter (\<lambda>name. name \<in> set (declared_fields gbl_metadata)) recognised_fields
      \<and> map_of metadata ''metadata_version'' = Some (PyInt 1)
      \<and> map_of metadata ''sdk_version'' = sdk_version
      \<and> map_of metadata ''fw_type'' = fw_type gbl_metadata
      \<and> map_of metadata ''baudrate'' = baudrate gbl_metadata)
   \<and> resolve_metadata literal_eval tree sdk_version (gbl_metadata\<lparr>dynamic := Some names\<rparr>)
       = resolve_metadata literal_eval tree sdk_version
           (gbl_metadata\<lparr>dynamic := Some (filter (\<lambda>name. name \<in> set recognised_fields) names)\<rparr>)
   \<and> (set names \<inter> set recognised_fields = {} \<longrightarrow>
        resolve_metadata literal_eval tree sdk_version (gbl_metadata\<lparr>dynamic := Some names\<rparr>)
          = initial_metadata sdk_version gbl_metadata)"
proof (intro conjI impI)
  assume "resolve_metadata literal_eval tree sdk_version gbl_metadata = Inr metadata"
  then show "map fst metadata
        = base_fields @ filter (\<lambda>name. name \<in> set (declared_fields gbl_metadata)) recognised_fields"
    and "map_of metadata ''metadata_version'' = Some (PyInt 1)"
    and "map_of metadata ''sdk_version'' = sdk_version"
    and "map_of metadata ''fw_type'' = fw_type gbl_metadata"
    and "map_of metadata ''baudrate'' = baudrate gbl_metadata"
    by (rule resolve_metadata_keys)+
next
  show "resolve_metadata literal_eval tree sdk_version (gbl_metadata\<lparr>dynamic := Some names\<rparr>)
       = resolve_metadata literal_eval tree sdk_version
           (gbl_metadata\<lparr>dynamic := Some (filter (\<lambda>name. name \<in> set recognised_fields) names)\<rparr>)"
    by (rule resolve_metadata_ignores_unknown)
next
  assume "set names \<inter> set recognised_fields = {}"
  then show "resolve_metadata literal_eval tree sdk_version (gbl_metadata\<lparr>dynamic := Some names\<rparr>)
          = initial_metadata sdk_version gbl_metadata"
    by (rule resolve_metadata_unknown_only)
qed

text \<open>
  The theorem at a list with three recognised names, out of order, and one unrecognised name.
\<close>

theorem resolved_metadata_fields_witness:
  "\<exists>metadata.
     resolve_metadata sample_literal_eval sdk_tree_beta (Some (PyStr ''4.4.0''))
       (ncp_yaml [''cpc_version'', ''bogus'', ''ot_rcp_version'', ''ezsp_version'']) = Inr metadata
     \<and> map fst metadata = [''metadata_version'', ''sdk_version'', ''fw_type'', ''baudrate'',
          ''ezsp_version'', ''cpc_version'', ''ot_rcp_version'']
     \<and> map_of metadata ''metadata_version'' = Some (PyInt 1)"
proof -
  let ?yaml = "ncp_yaml [''cpc_version'', ''bogus'', ''ot_rcp_version'', ''ezsp_version'']"
  have "resolve_metadata sample_literal_eval sdk_tree_beta (Some (PyStr ''4.4.0'')) ?yaml
      = Inr [(''metadata_version'', PyInt 1), (''sdk_version'', PyStr ''4.4.0''),
             (''fw_type'', PyStr ''ncp-uart-hw''), (''baudrate'', PyInt 115200),
             (''ezsp_version'', PyStr ''7.2.0.0''), (''cpc_version'', PyStr ''4.2.0-beta''),
             (''ot_rcp_version'', PyStr ''SL-OPENTHREAD/2.4.1.0'')]"
    by code_simp
  then obtain metadata where
    metadata: "resolve_metadata sample_literal_eval sdk_tree_beta (Some (PyStr ''4.4.0'')) ?yaml
      = Inr metadata" ..
  have "base_fields @ filter (\<lambda>name. name \<in> set (declared_fields ?yaml)) recognised_fields
      = [''metadata_version'', ''sdk_version'', ''fw_type'', ''baudrate'',
          ''ezsp_version'', ''cpc_version'', ''ot_rcp_version'']"
    by code_simp
  with resolved_metadata_fields
    [of sample_literal_eval sdk_tree_beta "Some (PyStr ''4.4.0'')" ?yaml metadata] metadata
  show ?thesis
    by auto
qed













end
